theory Spec2Isabelle
  imports Main
begin

section \<open>Exceptions\<close>

text \<open>
  Every \<^verbatim>\<open>raise\<close> of \<^verbatim>\<open>metadata/forms.py\<close>, and every exception of the Python and
  Django operations it calls, is a value of this type; a function that may raise returns
  \<open>exn + 'a\<close>, with \<open>Inl\<close> the exception.
\<close>

datatype exn =
    KeyError string
  | AttributeError string
  | TypeError string
  | AssertionError
  | DoesNotExist
  | MultipleObjectsReturned
  | ValidationError string
  | Exception string

section \<open>Entities\<close>

record document_type =
  dt_pk :: nat
  dt_label :: string

record metadata_type =
  mt_pk :: nat
  mt_name :: string
  mt_label :: string
  mt_default :: "string option"
  mt_lookup :: "string option"

text \<open>
  A row of \<^verbatim>\<open>DocumentTypeMetadataType\<close>: the join of a document type and a metadata
  type, with the \<^verbatim>\<open>required\<close> flag. An instance that was never saved has no primary
  key.
\<close>

record relationship_row =
  pk :: "nat option"
  document_type_id :: nat
  metadata_type_id :: nat
  required :: bool

type_synonym user = string

section \<open>The persistence layer\<close>

text \<open>
  The store is the table of relationship rows together with the log of the persistence
  calls made so far, each with the user it was attributed to (the \<^verbatim>\<open>_user\<close> argument of
  \<^verbatim>\<open>save\<close> and \<^verbatim>\<open>delete\<close>).
\<close>

datatype event = Saved relationship_row user | Deleted relationship_row user

record store =
  rows :: "relationship_row list"
  events :: "event list"

text \<open>
  Modelled from the spec: the default of the \<^verbatim>\<open>required\<close> column, declared in
  \<^verbatim>\<open>models.py\<close> (not among the sources). The spec has a row created without the flag
  be a non-required row.
\<close>

definition required_default :: bool where
  "required_default = False"

fun max_pk :: "relationship_row list \<Rightarrow> nat" where
  "max_pk [] = 0"
| "max_pk (r # rs) = max (case pk r of None \<Rightarrow> 0 | Some k \<Rightarrow> k) (max_pk rs)"

definition fresh_pk :: "relationship_row list \<Rightarrow> nat" where
  "fresh_pk rs = Suc (max_pk rs)"

text \<open>
  \<^verbatim>\<open>instance.save(_user=user)\<close>: an instance whose primary key is in the table replaces
  the row of that key; any other instance is inserted, under a fresh key when it has none.
\<close>

definition Model_save :: "store \<Rightarrow> relationship_row \<Rightarrow> user \<Rightarrow> store" where
  "Model_save st inst u =
     (case pk inst of
        Some k \<Rightarrow>
          if Some k \<in> set (map pk (rows st))
          then st\<lparr>rows := map (\<lambda>r. if pk r = Some k then inst else r) (rows st),
                  events := events st @ [Saved inst u]\<rparr>
          else st\<lparr>rows := rows st @ [inst], events := events st @ [Saved inst u]\<rparr>
      | None \<Rightarrow>
          (let new = inst\<lparr>pk := Some (fresh_pk (rows st))\<rparr>
           in st\<lparr>rows := rows st @ [new], events := events st @ [Saved new u]\<rparr>))"

text \<open>
  \<^verbatim>\<open>instance.delete(_user=user)\<close>: removes the row of the instance's primary key; Django
  asserts that the instance has one.
\<close>

definition Model_delete :: "store \<Rightarrow> relationship_row \<Rightarrow> user \<Rightarrow> exn + store" where
  "Model_delete st inst u =
     (case pk inst of
        None \<Rightarrow> Inl AssertionError
      | Some k \<Rightarrow>
          Inr (st\<lparr>rows := filter (\<lambda>r. pk r \<noteq> Some k) (rows st),
                   events := events st @ [Deleted inst u]\<rparr>))"

text \<open>
  A query set is lazy: \<^verbatim>\<open>document_type.metadata.filter(metadata_type=...)\<close> only records
  the pair it selects, and \<^verbatim>\<open>exists()\<close> and \<^verbatim>\<open>get()\<close> run it against the table as it
  is when they are called.
\<close>

record queryset =
  qs_document_type :: nat
  qs_metadata_type :: nat

definition qs_rows :: "store \<Rightarrow> queryset \<Rightarrow> relationship_row list" where
  "qs_rows st qs =
     filter (\<lambda>r. document_type_id r = qs_document_type qs \<and>
                  metadata_type_id r = qs_metadata_type qs) (rows st)"

definition qs_exists :: "store \<Rightarrow> queryset \<Rightarrow> bool" where
  "qs_exists st qs = (qs_rows st qs \<noteq> [])"

definition qs_get :: "store \<Rightarrow> queryset \<Rightarrow> exn + relationship_row" where
  "qs_get st qs =
     (case qs_rows st qs of
        [] \<Rightarrow> Inl DoesNotExist
      | [r] \<Rightarrow> Inr r
      | _ \<Rightarrow> Inl MultipleObjectsReturned)"

text \<open>The table's constraints: primary keys are set and distinct.\<close>

definition wf_store :: "store \<Rightarrow> bool" where
  "wf_store st = (None \<notin> set (map pk (rows st)) \<and> distinct (map pk (rows st)))"

text \<open>The spec's invariant: at most one row per (document type, metadata type) pair.\<close>

definition unique_pairs :: "store \<Rightarrow> bool" where
  "unique_pairs st =
     distinct (map (\<lambda>r. (document_type_id r, metadata_type_id r)) (rows st))"

section \<open>The relationship form\<close>

text \<open>
  The form's \<^verbatim>\<open>initial\<close> dictionary, with the three keys the code reads; a key that is
  absent is \<open>None\<close>.
\<close>

record rel_initial =
  main_model :: "string option"
  init_document_type :: "document_type option"
  init_metadata_type :: "metadata_type option"

definition empty_initial :: rel_initial where
  "empty_initial = \<lparr>main_model = None, init_document_type = None, init_metadata_type = None\<rparr>"

text \<open>
  The form instance: \<^verbatim>\<open>_user\<close>, \<^verbatim>\<open>initial\<close>, the initial values of its two fields and
  the attribute \<^verbatim>\<open>initial_relationship_type\<close>, which exists only once the constructor
  has set it.
\<close>

record relationship_form =
  user_of :: user
  initial :: rel_initial
  label_initial :: "string option"
  relationship_type_initial :: "string option"
  initial_relationship_type :: "string option"

record rel_kwargs =
  kw_user :: "user option"
  kw_initial :: "rel_initial option"

definition RELATIONSHIP_TYPE_NONE :: string where
  "RELATIONSHIP_TYPE_NONE = ''none''"

definition RELATIONSHIP_TYPE_OPTIONAL :: string where
  "RELATIONSHIP_TYPE_OPTIONAL = ''optional''"

definition RELATIONSHIP_TYPE_REQUIRED :: string where
  "RELATIONSHIP_TYPE_REQUIRED = ''required''"

definition get_relationship :: "relationship_form \<Rightarrow> exn + queryset" where
  "get_relationship self =
     (case init_document_type (initial self) of
        None \<Rightarrow> Inl (KeyError ''document_type'')
      | Some dt \<Rightarrow>
          (case init_metadata_type (initial self) of
             None \<Rightarrow> Inl (KeyError ''metadata_type'')
           | Some mt \<Rightarrow>
               Inr \<lparr>qs_document_type = dt_pk dt, qs_metadata_type = mt_pk mt\<rparr>))"

definition get_relationship_type :: "store \<Rightarrow> relationship_form \<Rightarrow> exn + string" where
  "get_relationship_type st self =
     (case get_relationship self of
        Inl e \<Rightarrow> Inl e
      | Inr relationship \<Rightarrow>
          if qs_exists st relationship
          then (case qs_get st relationship of
                  Inl e \<Rightarrow> Inl e
                | Inr r \<Rightarrow>
                    if required r then Inr RELATIONSHIP_TYPE_REQUIRED
                    else Inr RELATIONSHIP_TYPE_OPTIONAL)
          else Inr RELATIONSHIP_TYPE_NONE)"

definition DocumentTypeMetadataTypeRelationshipForm_init ::
  "store \<Rightarrow> rel_kwargs \<Rightarrow> exn + relationship_form" where
  "DocumentTypeMetadataTypeRelationshipForm_init st kwargs =
     (case kw_user kwargs of
        None \<Rightarrow> Inl (KeyError ''_user'')
      | Some u \<Rightarrow>
          (let ini = (case kw_initial kwargs of None \<Rightarrow> empty_initial | Some i \<Rightarrow> i);
               self = \<lparr>user_of = u, initial = ini, label_initial = None,
                       relationship_type_initial = None, initial_relationship_type = None\<rparr>
           in case main_model ini of
                None \<Rightarrow> Inr self
              | Some m \<Rightarrow>
                  (case (if m = ''metadata_type''
                         then (case init_document_type ini of
                                 None \<Rightarrow> Inl (KeyError ''document_type'')
                               | Some dt \<Rightarrow> Inr (dt_label dt))
                         else (case init_metadata_type ini of
                                 None \<Rightarrow> Inl (KeyError ''metadata_type'')
                               | Some mt \<Rightarrow> Inr (mt_label mt))) of
                     Inl e \<Rightarrow> Inl e
                   | Inr l \<Rightarrow>
                       (case get_relationship_type st (self\<lparr>label_initial := Some l\<rparr>) of
                          Inl e \<Rightarrow> Inl e
                        | Inr t \<Rightarrow>
                            Inr (self\<lparr>label_initial := Some l,
                                      relationship_type_initial := Some t,
                                      initial_relationship_type := Some t\<rparr>)))))"

definition save_relationship_none ::
  "store \<Rightarrow> relationship_form \<Rightarrow> queryset \<Rightarrow> exn + store" where
  "save_relationship_none st self relationship =
     (case qs_get st relationship of
        Inl e \<Rightarrow> Inl e
      | Inr instance \<Rightarrow> Model_delete st instance (user_of self))"

definition new_relationship :: "relationship_form \<Rightarrow> bool \<Rightarrow> exn + relationship_row" where
  "new_relationship self req =
     (case init_document_type (initial self) of
        None \<Rightarrow> Inl (KeyError ''document_type'')
      | Some dt \<Rightarrow>
          (case init_metadata_type (initial self) of
             None \<Rightarrow> Inl (KeyError ''metadata_type'')
           | Some mt \<Rightarrow>
               Inr \<lparr>pk = None, document_type_id = dt_pk dt, metadata_type_id = mt_pk mt,
                    required = req\<rparr>))"

definition save_relationship_optional ::
  "store \<Rightarrow> relationship_form \<Rightarrow> queryset \<Rightarrow> exn + store" where
  "save_relationship_optional st self relationship =
     (if qs_exists st relationship
      then (case qs_get st relationship of
              Inl e \<Rightarrow> Inl e
            | Inr instance \<Rightarrow>
                Inr (Model_save st (instance\<lparr>required := False\<rparr>) (user_of self)))
      else (case new_relationship self required_default of
              Inl e \<Rightarrow> Inl e
            | Inr new \<Rightarrow> Inr (Model_save st new (user_of self))))"

definition save_relationship_required ::
  "store \<Rightarrow> relationship_form \<Rightarrow> queryset \<Rightarrow> exn + store" where
  "save_relationship_required st self relationship =
     (if qs_exists st relationship
      then (case qs_get st relationship of
              Inl e \<Rightarrow> Inl e
            | Inr instance \<Rightarrow>
                Inr (Model_save st (instance\<lparr>required := True\<rparr>) (user_of self)))
      else (case new_relationship self True of
              Inl e \<Rightarrow> Inl e
            | Inr new \<Rightarrow> Inr (Model_save st new (user_of self))))"

text \<open>
  \<^verbatim>\<open>getattr(self, name)\<close> for the names \<^verbatim>\<open>save\<close> builds: the class has exactly three
  attributes whose name starts with \<^verbatim>\<open>save_relationship_\<close>.
\<close>

definition getattr_save_relationship ::
  "string \<Rightarrow> (store \<Rightarrow> relationship_form \<Rightarrow> queryset \<Rightarrow> exn + store) option" where
  "getattr_save_relationship name =
     (if name = ''save_relationship_none'' then Some save_relationship_none
      else if name = ''save_relationship_optional'' then Some save_relationship_optional
      else if name = ''save_relationship_required'' then Some save_relationship_required
      else None)"

text \<open>
  \<^verbatim>\<open>save\<close> reads \<^verbatim>\<open>cleaned_data['relationship_type']\<close>; the cleaned data is a dictionary
  from field names to the submitted choice.
\<close>

definition save ::
  "store \<Rightarrow> relationship_form \<Rightarrow> (string \<rightharpoonup> string) \<Rightarrow> exn + store" where
  "save st self cleaned_data =
     (case get_relationship self of
        Inl e \<Rightarrow> Inl e
      | Inr relationship \<Rightarrow>
          (case cleaned_data ''relationship_type'' of
             None \<Rightarrow> Inl (KeyError ''relationship_type'')
           | Some chosen \<Rightarrow>
               (case initial_relationship_type self of
                  None \<Rightarrow> Inl (AttributeError ''initial_relationship_type'')
                | Some init \<Rightarrow>
                    if chosen \<noteq> init
                    then (case getattr_save_relationship (''save_relationship_'' @ chosen) of
                            None \<Rightarrow> Inl (AttributeError (''save_relationship_'' @ chosen))
                          | Some routine \<Rightarrow> routine st self relationship)
                    else Inr st)))"

text \<open>
  The stores a save can end in: the row of the pair saved with a new \<^verbatim>\<open>required\<close> flag,
  a row created for the pair under a fresh key, and the row of the pair deleted; each with
  the one persistence call logged for the acting user.
\<close>

definition created_row :: "store \<Rightarrow> queryset \<Rightarrow> bool \<Rightarrow> relationship_row" where
  "created_row st qs req =
     \<lparr>pk = Some (fresh_pk (rows st)), document_type_id = qs_document_type qs,
      metadata_type_id = qs_metadata_type qs, required = req\<rparr>"

definition row_updated :: "store \<Rightarrow> relationship_row \<Rightarrow> bool \<Rightarrow> user \<Rightarrow> store" where
  "row_updated st inst req u =
     st\<lparr>rows := map (\<lambda>r. if r = inst then inst\<lparr>required := req\<rparr> else r) (rows st),
        events := events st @ [Saved (inst\<lparr>required := req\<rparr>) u]\<rparr>"

definition row_created :: "store \<Rightarrow> queryset \<Rightarrow> bool \<Rightarrow> user \<Rightarrow> store" where
  "row_created st qs req u =
     st\<lparr>rows := rows st @ [created_row st qs req],
        events := events st @ [Saved (created_row st qs req) u]\<rparr>"

definition row_deleted :: "store \<Rightarrow> relationship_row \<Rightarrow> user \<Rightarrow> store" where
  "row_deleted st inst u =
     st\<lparr>rows := filter (\<lambda>r. r \<noteq> inst) (rows st),
        events := events st @ [Deleted inst u]\<rparr>"

section \<open>Python values and form fields\<close>

text \<open>
  The values a form field or a cleaned-data entry holds: \<^verbatim>\<open>None\<close>, a string, a boolean or
  an integer key. \<open>truthy\<close> is Python's truth value of each.
\<close>

datatype pyval = PyNone | PyStr string | PyBool bool | PyInt nat

fun truthy :: "pyval \<Rightarrow> bool" where
  "truthy PyNone = False"
| "truthy (PyStr s) = (s \<noteq> [])"
| "truthy (PyBool b) = b"
| "truthy (PyInt n) = (n \<noteq> 0)"

text \<open>A nullable text column (\<^verbatim>\<open>lookup\<close>, \<^verbatim>\<open>default\<close>) is true when set and not empty.\<close>

fun truthy_opt :: "string option \<Rightarrow> bool" where
  "truthy_opt None = False"
| "truthy_opt (Some s) = (s \<noteq> [])"

text \<open>\<^verbatim>\<open>dict.get(key)\<close>: \<^verbatim>\<open>None\<close> for an absent key.\<close>

definition dict_get :: "(string \<rightharpoonup> pyval) \<Rightarrow> string \<Rightarrow> pyval" where
  "dict_get d k = (case d k of None \<Rightarrow> PyNone | Some v \<Rightarrow> v)"

datatype field_class = CharField | ChoiceField | BooleanField

datatype widget_class = TextInput | HiddenInput | Select | CheckboxInput

record widget =
  w_class :: widget_class
  w_attrs :: "string \<rightharpoonup> string"

record field =
  f_class :: field_class
  f_label :: string
  f_required :: bool
  f_initial :: pyval
  f_widget :: widget
  f_choices :: "(string \<times> string) list"

text \<open>
  The field constructors with Django's defaults: a field is required, has no initial
  value, and gets the widget of its class unless one is given.
\<close>

definition forms_TextInput :: "(string \<rightharpoonup> string) \<Rightarrow> widget" where
  "forms_TextInput attrs = \<lparr>w_class = TextInput, w_attrs = attrs\<rparr>"

definition forms_ChoiceField :: "string \<Rightarrow> field" where
  "forms_ChoiceField label =
     \<lparr>f_class = ChoiceField, f_label = label, f_required = True, f_initial = PyNone,
      f_widget = \<lparr>w_class = Select, w_attrs = Map.empty\<rparr>, f_choices = []\<rparr>"

section \<open>The metadata value form\<close>

text \<open>
  The methods of \<^verbatim>\<open>MetadataType\<close> the form calls are defined in \<^verbatim>\<open>models.py\<close>, which is
  not among the sources; they are parameters of the model. The two template evaluations
  return the rendered result, or \<open>Inl\<close> the text of the exception they raised;
  \<^verbatim>\<open>validate_value\<close> returns the parsed value or raises.
\<close>

record env =
  get_required_for :: "metadata_type \<Rightarrow> document_type \<Rightarrow> bool"
  get_lookup_values :: "metadata_type \<Rightarrow> string + string list"
  get_default_value :: "metadata_type \<Rightarrow> string + string"
  validate_value :: "metadata_type \<Rightarrow> document_type \<Rightarrow> pyval \<Rightarrow> exn + pyval"

text \<open>The calls a function made to those methods, in order, by primary key.\<close>

datatype call =
    GetRequiredFor nat nat
  | GetLookupValues nat
  | GetDefaultValue nat
  | ValidateValue nat nat pyval

text \<open>The fields declared by the class \<^verbatim>\<open>DocumentMetadataForm\<close>.\<close>

definition DocumentMetadataForm_fields :: "string \<rightharpoonup> field" where
  "DocumentMetadataForm_fields =
     [''metadata_type_id'' \<mapsto>
        \<lparr>f_class = CharField, f_label = ''ID'', f_required = True, f_initial = PyNone,
         f_widget = \<lparr>w_class = HiddenInput, w_attrs = Map.empty\<rparr>, f_choices = []\<rparr>,
      ''metadata_type_name'' \<mapsto>
        \<lparr>f_class = CharField, f_label = ''Name'', f_required = False, f_initial = PyNone,
         f_widget = forms_TextInput [''readonly'' \<mapsto> ''readonly''], f_choices = []\<rparr>,
      ''value'' \<mapsto>
        \<lparr>f_class = CharField, f_label = ''Value'', f_required = False, f_initial = PyNone,
         f_widget = forms_TextInput [''class'' \<mapsto> ''metadata-value''], f_choices = []\<rparr>,
      ''update'' \<mapsto>
        \<lparr>f_class = BooleanField, f_label = ''Update'', f_required = False,
         f_initial = PyBool True,
         f_widget = \<lparr>w_class = CheckboxInput, w_attrs = Map.empty\<rparr>, f_choices = []\<rparr>]"

text \<open>
  The form instance: its own copy of the fields, and the attributes \<^verbatim>\<open>metadata_type\<close> and
  \<^verbatim>\<open>document_type\<close>, which exist only when the constructor was given \<^verbatim>\<open>initial\<close>.
\<close>

record metadata_form =
  form_fields :: "string \<rightharpoonup> field"
  form_metadata_type :: "metadata_type option"
  form_document_type :: "document_type option"

text \<open>The \<^verbatim>\<open>initial\<close> dictionary, with the two keys the constructor reads.\<close>

record value_initial =
  i_metadata_type :: "metadata_type option"
  i_document_type :: "document_type option"

record value_kwargs =
  kw_value_initial :: "value_initial option"

text \<open>\<^verbatim>\<open>self.fields[name].attribute = ...\<close> on a declared field.\<close>

definition set_field :: "string \<Rightarrow> (field \<Rightarrow> field) \<Rightarrow> metadata_form \<Rightarrow> metadata_form" where
  "set_field name g self = self\<lparr>form_fields := (form_fields self)(name := map_option g (form_fields self name))\<rparr>"

definition label_of :: "metadata_form \<Rightarrow> string \<Rightarrow> string" where
  "label_of self name = (case form_fields self name of None \<Rightarrow> [] | Some f \<Rightarrow> f_label f)"

text \<open>Lines 59 to 79: the lookup template turns the value field into a choice field.\<close>

definition init_lookup ::
  "env \<Rightarrow> metadata_type \<Rightarrow> bool \<Rightarrow> metadata_form \<Rightarrow> call list \<times> metadata_form" where
  "init_lookup e mt req self =
     (if truthy_opt (mt_lookup mt)
      then (let self1 = self\<lparr>form_fields := (form_fields self)(''value'' \<mapsto>
                           forms_ChoiceField (label_of self ''value''))\<rparr>
            in case get_lookup_values e mt of
                 Inr values \<Rightarrow>
                   (let choices = zip values values;
                        choices = (if \<not> req then ([], ''------'') # choices else choices)
                    in ([GetLookupValues (mt_pk mt)],
                        set_field ''value''
                          (\<lambda>f. f\<lparr>f_choices := choices, f_required := req,
                                  f_widget := (f_widget f)\<lparr>w_attrs :=
                                    (w_attrs (f_widget f))(''class'' \<mapsto> ''metadata-value'')\<rparr>\<rparr>)
                          self1))
               | Inl exception \<Rightarrow>
                   ([GetLookupValues (mt_pk mt)],
                    set_field ''value''
                      (\<lambda>f. f\<lparr>f_initial := PyStr (''Lookup value error: '' @ exception),
                              f_widget := forms_TextInput [''readonly'' \<mapsto> ''readonly'']\<rparr>)
                      self1))
      else ([], self))"

text \<open>Lines 81 to 92: the default template gives the value field its initial value.\<close>

definition init_default ::
  "env \<Rightarrow> metadata_type \<Rightarrow> metadata_form \<Rightarrow> call list \<times> metadata_form" where
  "init_default e mt self =
     (if truthy_opt (mt_default mt)
      then (case get_default_value e mt of
              Inr v \<Rightarrow>
                ([GetDefaultValue (mt_pk mt)],
                 set_field ''value'' (\<lambda>f. f\<lparr>f_initial := PyStr v\<rparr>) self)
            | Inl exception \<Rightarrow>
                ([GetDefaultValue (mt_pk mt)],
                 set_field ''value''
                   (\<lambda>f. f\<lparr>f_initial := PyStr (''Default value error: '' @ exception),
                           f_widget := forms_TextInput [''readonly'' \<mapsto> ''readonly'']\<rparr>)
                   self))
      else ([], self))"

text \<open>Lines 38 to 57: the required flag, the name and the id of the metadata type.\<close>

definition init_required :: "metadata_type \<Rightarrow> bool \<Rightarrow> metadata_form \<Rightarrow> metadata_form" where
  "init_required mt req self =
     (let self1 = (if req
                   then set_field ''value'' (\<lambda>f. f\<lparr>f_required := True\<rparr>) self
                   else set_field ''update'' (\<lambda>f. f\<lparr>f_initial := PyBool False\<rparr>)
                          (set_field ''value'' (\<lambda>f. f\<lparr>f_required := False\<rparr>) self));
          required_string = (if req then '' (Required)'' else []);
          self2 = set_field ''metadata_type_name''
                    (\<lambda>f. f\<lparr>f_initial :=
                       PyStr ((if mt_label mt \<noteq> [] then mt_label mt else mt_name mt) @
                              required_string)\<rparr>) self1
      in set_field ''metadata_type_id'' (\<lambda>f. f\<lparr>f_initial := PyInt (mt_pk mt)\<rparr>) self2)"

text \<open>
  \<^verbatim>\<open>DocumentMetadataForm.__init__\<close>, for a class that declares the fields \<open>declared\<close>: the
  subclass \<^verbatim>\<open>DocumentMetadataRemoveForm\<close> runs the same constructor on its own fields.
\<close>

definition DocumentMetadataForm_init_fields ::
  "(string \<rightharpoonup> field) \<Rightarrow> env \<Rightarrow> value_kwargs \<Rightarrow> call list \<times> (exn + metadata_form)" where
  "DocumentMetadataForm_init_fields declared e kwargs =
     (let self = \<lparr>form_fields = declared, form_metadata_type = None, form_document_type = None\<rparr>
      in case kw_value_initial kwargs of
           None \<Rightarrow> ([], Inr self)
         | Some ini \<Rightarrow>
             (case i_metadata_type ini of
                None \<Rightarrow> ([], Inl (KeyError ''metadata_type''))
              | Some mt \<Rightarrow>
                  (case i_document_type ini of
                     None \<Rightarrow> ([], Inl (KeyError ''document_type''))
                   | Some dt \<Rightarrow>
                       (let self1 = self\<lparr>form_metadata_type := Some mt,
                                         form_document_type := Some dt\<rparr>;
                            req = get_required_for e mt dt;
                            self2 = init_required mt req self1;
                            (calls3, self3) = init_lookup e mt req self2;
                            (calls4, self4) = init_default e mt self3
                        in (GetRequiredFor (mt_pk mt) (dt_pk dt) # calls3 @ calls4,
                            Inr self4)))))"

definition DocumentMetadataForm_init ::
  "env \<Rightarrow> value_kwargs \<Rightarrow> call list \<times> (exn + metadata_form)" where
  "DocumentMetadataForm_init = DocumentMetadataForm_init_fields DocumentMetadataForm_fields"

definition required_message :: "metadata_type \<Rightarrow> string" where
  "required_message mt =
     CHR 0x22 # mt_label mt @ CHR 0x22 # '' is required for this document type.''"

text \<open>Lines 95 to 108 of \<^verbatim>\<open>clean\<close>: the required-value check.\<close>

definition clean_required ::
  "env \<Rightarrow> metadata_form \<Rightarrow> (string \<rightharpoonup> pyval) \<Rightarrow> call list \<times> (exn + unit)" where
  "clean_required e self cleaned_data =
     (case form_metadata_type self of
        None \<Rightarrow> ([], Inr ())
      | Some mt \<Rightarrow>
          (case form_document_type self of
             None \<Rightarrow> ([], Inl (AttributeError ''document_type''))
           | Some dt \<Rightarrow>
               (let calls = [GetRequiredFor (mt_pk mt) (dt_pk dt)]
                in if get_required_for e mt dt
                   then (case cleaned_data ''value'' of
                           None \<Rightarrow> (calls, Inl (KeyError ''value''))
                         | Some v \<Rightarrow>
                             if \<not> truthy v \<and> \<not> truthy (dict_get cleaned_data ''update'')
                             then (calls, Inl (ValidationError (required_message mt)))
                             else (calls, Inr ()))
                   else (calls, Inr ()))))"

text \<open>Lines 110 to 116 of \<^verbatim>\<open>clean\<close>: validation of the value when the toggle is set.\<close>

definition clean_validate ::
  "env \<Rightarrow> metadata_form \<Rightarrow> (string \<rightharpoonup> pyval) \<Rightarrow>
     call list \<times> (exn + (string \<rightharpoonup> pyval))" where
  "clean_validate e self cleaned_data =
     (if truthy (dict_get cleaned_data ''update'') \<and> form_metadata_type self \<noteq> None
      then (case form_metadata_type self of
              None \<Rightarrow> ([], Inr cleaned_data)
            | Some mt \<Rightarrow>
                (case form_document_type self of
                   None \<Rightarrow> ([], Inl (AttributeError ''document_type''))
                 | Some dt \<Rightarrow>
                     (let v = dict_get cleaned_data ''value'';
                          calls = [ValidateValue (mt_pk mt) (dt_pk dt) v]
                      in case validate_value e mt dt v of
                           Inl exception \<Rightarrow> (calls, Inl exception)
                         | Inr parsed \<Rightarrow> (calls, Inr (cleaned_data(''value'' \<mapsto> parsed))))))
      else ([], Inr cleaned_data))"

definition DocumentMetadataForm_clean ::
  "env \<Rightarrow> metadata_form \<Rightarrow> (string \<rightharpoonup> pyval) \<Rightarrow>
     call list \<times> (exn + (string \<rightharpoonup> pyval))" where
  "DocumentMetadataForm_clean e self cleaned_data =
     (case clean_required e self cleaned_data of
        (calls1, Inl exception) \<Rightarrow> (calls1, Inl exception)
      | (calls1, Inr _) \<Rightarrow>
          (case clean_validate e self cleaned_data of
             (calls2, result) \<Rightarrow> (calls1 @ calls2, result)))"

section \<open>The bulk remove form\<close>

text \<open>The subclass declares its own \<^verbatim>\<open>update\<close> field over the parent's.\<close>

definition DocumentMetadataRemoveForm_fields :: "string \<rightharpoonup> field" where
  "DocumentMetadataRemoveForm_fields =
     DocumentMetadataForm_fields(''update'' \<mapsto>
        \<lparr>f_class = BooleanField, f_label = ''Remove'', f_required = False,
         f_initial = PyBool False,
         f_widget = \<lparr>w_class = CheckboxInput, w_attrs = Map.empty\<rparr>, f_choices = []\<rparr>)"

definition DocumentMetadataRemoveForm_init ::
  "env \<Rightarrow> value_kwargs \<Rightarrow> call list \<times> (exn + metadata_form)" where
  "DocumentMetadataRemoveForm_init e kwargs =
     (case DocumentMetadataForm_init_fields DocumentMetadataRemoveForm_fields e kwargs of
        (calls, Inl exception) \<Rightarrow> (calls, Inl exception)
      | (calls, Inr self) \<Rightarrow>
          (case form_fields self ''value'' of
             None \<Rightarrow> (calls, Inl (KeyError ''value''))
           | Some _ \<Rightarrow> (calls, Inr (self\<lparr>form_fields := (form_fields self)(''value'' := None)\<rparr>))))"

text \<open>
  \<^verbatim>\<open>super(forms.Form, self).clean()\<close> is Django's \<^verbatim>\<open>BaseForm.clean\<close>, the hook that
  returns \<^verbatim>\<open>self.cleaned_data\<close>.
\<close>

definition BaseForm_clean ::
  "(string \<rightharpoonup> pyval) \<Rightarrow> call list \<times> (exn + (string \<rightharpoonup> pyval))" where
  "BaseForm_clean cleaned_data = ([], Inr cleaned_data)"

definition DocumentMetadataRemoveForm_clean ::
  "env \<Rightarrow> metadata_form \<Rightarrow> (string \<rightharpoonup> pyval) \<Rightarrow>
     call list \<times> (exn + (string \<rightharpoonup> pyval))" where
  "DocumentMetadataRemoveForm_clean e self cleaned_data = BaseForm_clean cleaned_data"

section \<open>The bulk add form\<close>

text \<open>
  The keyword arguments of the constructor: \<^verbatim>\<open>document_type\<close> (absent, \<^verbatim>\<open>None\<close> or a
  document type), \<^verbatim>\<open>queryset\<close> (absent or a query set, given by the metadata types it
  selects) and the names of the others, which go to \<^verbatim>\<open>forms.Form.__init__\<close>.
\<close>

record add_kwargs =
  kw_document_type :: "document_type option option"
  kw_queryset :: "metadata_type list option"
  kw_others :: "string list"

record add_form =
  metadata_type_queryset :: "metadata_type list"

text \<open>The keyword parameters of Django's \<^verbatim>\<open>forms.Form.__init__\<close>; it takes no others.\<close>

definition Form_init_parameters :: "string list" where
  "Form_init_parameters =
     [''data'', ''files'', ''auto_id'', ''prefix'', ''initial'', ''error_class'',
      ''label_suffix'', ''empty_permitted'', ''field_order'', ''use_required_attribute'',
      ''renderer'']"

definition Form_init :: "string list \<Rightarrow> exn + unit" where
  "Form_init names =
     (case filter (\<lambda>name. name \<notin> set Form_init_parameters) names of
        [] \<Rightarrow> Inr ()
      | name # _ \<Rightarrow>
          Inl (TypeError (''__init__() got an unexpected keyword argument '' @
                          CHR 0x27 # name @ [CHR 0x27])))"

text \<open>
  \<^verbatim>\<open>MetadataType.objects.get_for_document_type\<close> is a manager method of \<^verbatim>\<open>models.py\<close>,
  a parameter here; \<^verbatim>\<open>MetadataType.objects.none()\<close> is the empty query set.
\<close>

definition DocumentMetadataAddForm_init ::
  "(document_type \<Rightarrow> metadata_type list) \<Rightarrow> add_kwargs \<Rightarrow> exn + add_form" where
  "DocumentMetadataAddForm_init get_for_document_type kwargs =
     (let document_type = (case kw_document_type kwargs of None \<Rightarrow> None | Some v \<Rightarrow> v);
          (queryset, kwargs') =
            (case document_type of
               Some dt \<Rightarrow>
                 ((case kw_queryset kwargs of
                     None \<Rightarrow> get_for_document_type dt
                   | Some q \<Rightarrow> q),
                  kw_others kwargs)
             | None \<Rightarrow>
                 ([],
                  (case kw_queryset kwargs of None \<Rightarrow> [] | Some _ \<Rightarrow> [''queryset'']) @
                  kw_others kwargs))
      in case Form_init kwargs' of
           Inl exception \<Rightarrow> Inl exception
         | Inr _ \<Rightarrow> Inr \<lparr>metadata_type_queryset = queryset\<rparr>)"

section \<open>Example data\<close>

text \<open>
  A document type, metadata types, tables and collaborators on which the properties below
  are evaluated.
\<close>

definition dt_invoice :: document_type where
  "dt_invoice = \<lparr>dt_pk = 1, dt_label = ''Invoice''\<rparr>"

definition mt_date :: metadata_type where
  "mt_date = \<lparr>mt_pk = 7, mt_name = ''date'', mt_label = ''Date'',
              mt_default = None, mt_lookup = None\<rparr>"

definition row_other :: relationship_row where
  "row_other = \<lparr>pk = Some 2, document_type_id = 1, metadata_type_id = 8, required = True\<rparr>"

definition row_date :: relationship_row where
  "row_date = \<lparr>pk = Some 3, document_type_id = 1, metadata_type_id = 7, required = False\<rparr>"

definition store_attached :: store where
  "store_attached = \<lparr>rows = [row_other, row_date], events = []\<rparr>"

definition store_detached :: store where
  "store_detached = \<lparr>rows = [row_other], events = []\<rparr>"

definition qs_date :: queryset where
  "qs_date = \<lparr>qs_document_type = 1, qs_metadata_type = 7\<rparr>"

definition form_date :: "string \<Rightarrow> relationship_form" where
  "form_date init =
     \<lparr>user_of = ''admin'',
      initial = \<lparr>main_model = Some ''document_type'', init_document_type = Some dt_invoice,
                 init_metadata_type = Some mt_date\<rparr>,
      label_initial = Some ''Date'', relationship_type_initial = Some init,
      initial_relationship_type = Some init\<rparr>"

definition kwargs_date :: rel_kwargs where
  "kwargs_date =
     \<lparr>kw_user = Some ''admin'',
      kw_initial = Some \<lparr>main_model = Some ''document_type'',
                         init_document_type = Some dt_invoice,
                         init_metadata_type = Some mt_date\<rparr>\<rparr>"

definition cleaned :: "string \<Rightarrow> (string \<rightharpoonup> string)" where
  "cleaned chosen = [''relationship_type'' \<mapsto> chosen]"

definition env_plain :: "bool \<Rightarrow> env" where
  "env_plain req =
     \<lparr>get_required_for = (\<lambda>mt dt. req),
      get_lookup_values = (\<lambda>mt. Inr []),
      get_default_value = (\<lambda>mt. Inr []),
      validate_value = (\<lambda>mt dt v. Inr v)\<rparr>"

definition env_strict :: env where
  "env_strict =
     \<lparr>get_required_for = (\<lambda>mt dt. False),
      get_lookup_values = (\<lambda>mt. Inr []),
      get_default_value = (\<lambda>mt. Inr []),
      validate_value =
        (\<lambda>mt dt v. if truthy v then Inr v else Inl (ValidationError ''Enter a valid date.''))\<rparr>"

definition env_failing_lookup :: env where
  "env_failing_lookup =
     \<lparr>get_required_for = (\<lambda>mt dt. False),
      get_lookup_values = (\<lambda>mt. Inl ''boom''),
      get_default_value = (\<lambda>mt. Inr ''2020-01-01''),
      validate_value = (\<lambda>mt dt v. Inr v)\<rparr>"

definition mt_country :: "string option \<Rightarrow> metadata_type" where
  "mt_country dflt =
     \<lparr>mt_pk = 9, mt_name = ''country'', mt_label = ''Country'', mt_default = dflt,
      mt_lookup = Some ''{{ countries }}''\<rparr>"

definition kwargs_value :: "metadata_type \<Rightarrow> value_kwargs" where
  "kwargs_value mt =
     \<lparr>kw_value_initial =
        Some \<lparr>i_metadata_type = Some mt, i_document_type = Some dt_invoice\<rparr>\<rparr>"

definition blank_form :: metadata_form where
  "blank_form =
     \<lparr>form_fields = DocumentMetadataForm_fields, form_metadata_type = None,
      form_document_type = None\<rparr>"

section \<open>Properties of the relationship form\<close>

lemma max_pk_ge: "r \<in> set rs \<Longrightarrow> pk r = Some k \<Longrightarrow> k \<le> max_pk rs"
  by (induction rs) auto

lemma fresh_pk_notin: "Some (fresh_pk rs) \<notin> set (map pk rs)"
proof
  assume "Some (fresh_pk rs) \<in> set (map pk rs)"
  then obtain r where "r \<in> set rs" and "pk r = Some (fresh_pk rs)"
    by auto
  then have "fresh_pk rs \<le> max_pk rs"
    by (rule max_pk_ge)
  then show False
    by (simp add: fresh_pk_def)
qed

lemma filter_key_distinct:
  "distinct (map f xs) \<Longrightarrow> filter (\<lambda>x. f x = k) xs = [] \<or> (\<exists>x. filter (\<lambda>x. f x = k) xs = [x])"
proof (induction xs)
  case Nil
  then show ?case by simp
next
  case (Cons a xs)
  show ?case
  proof (cases "f a = k")
    case True
    with Cons.prems have "k \<notin> f ` set xs"
      by simp
    then have "\<forall>x\<in>set xs. f x \<noteq> k"
      by blast
    then have "filter (\<lambda>x. f x = k) xs = []"
      by (simp add: filter_empty_conv)
    with True show ?thesis by simp
  next
    case False
    with Cons show ?thesis by simp
  qed
qed

lemma qs_rows_pair:
  "qs_rows st qs = filter (\<lambda>r. (document_type_id r, metadata_type_id r) = (qs_document_type qs, qs_metadata_type qs)) (rows st)"
  by (simp add: qs_rows_def)

lemma unique_pairs_qs_rows:
  "unique_pairs st \<Longrightarrow> qs_rows st qs = [] \<or> (\<exists>r. qs_rows st qs = [r])"
  unfolding qs_rows_pair unique_pairs_def by (rule filter_key_distinct)

lemma qs_exists_get:
  assumes "unique_pairs st" and "qs_exists st qs"
  shows "\<exists>r. qs_rows st qs = [r] \<and> qs_get st qs = Inr r"
proof -
  from assms obtain r where "qs_rows st qs = [r]"
    using unique_pairs_qs_rows [of st qs] by (auto simp: qs_exists_def)
  then show ?thesis by (simp add: qs_get_def)
qed

lemma qs_rows_single_mem:
  "qs_rows st qs = [r] \<Longrightarrow> r \<in> set (rows st) \<and> document_type_id r = qs_document_type qs \<and> metadata_type_id r = qs_metadata_type qs"
proof -
  assume a: "qs_rows st qs = [r]"
  have "r \<in> set (qs_rows st qs)" by (simp add: a)
  then show ?thesis by (simp add: qs_rows_def)
qed

lemma wf_pk_inj:
  "wf_store st \<Longrightarrow> r \<in> set (rows st) \<Longrightarrow> r' \<in> set (rows st) \<Longrightarrow> pk r = pk r' \<Longrightarrow> r = r'"
  by (auto simp: wf_store_def distinct_map inj_on_def)

lemma wf_pk_Some:
  "wf_store st \<Longrightarrow> r \<in> set (rows st) \<Longrightarrow> \<exists>k. pk r = Some k"
proof (cases "pk r")
  case None
  assume "wf_store st" and "r \<in> set (rows st)"
  with None have "None \<in> set (map pk (rows st))" and "None \<notin> set (map pk (rows st))"
    by (force, simp add: wf_store_def)
  then show ?thesis by simp
next
  case (Some k)
  then show ?thesis by simp
qed

lemma Model_save_existing:
  assumes wf: "wf_store st" and mem: "inst \<in> set (rows st)" and pk: "pk inst' = pk inst"
  shows "Model_save st inst' u =
           st\<lparr>rows := map (\<lambda>r. if r = inst then inst' else r) (rows st),
              events := events st @ [Saved inst' u]\<rparr>"
proof -
  from wf mem obtain k where k: "pk inst = Some k"
    using wf_pk_Some by blast
  have "map (\<lambda>r. if pk r = Some k then inst' else r) (rows st) =
        map (\<lambda>r. if r = inst then inst' else r) (rows st)"
  proof (rule map_cong [OF refl])
    fix r assume rm: "r \<in> set (rows st)"
    have "pk r = Some k \<longleftrightarrow> r = inst"
      using wf_pk_inj [OF wf rm mem] k by auto
    then show "(if pk r = Some k then inst' else r) = (if r = inst then inst' else r)"
      by simp
  qed
  moreover have "Some k \<in> set (map pk (rows st))"
    using mem k by force
  ultimately show ?thesis
    using k pk by (simp add: Model_save_def)
qed

lemma Model_save_new:
  "pk inst = None \<Longrightarrow>
   Model_save st inst u =
     st\<lparr>rows := rows st @ [inst\<lparr>pk := Some (fresh_pk (rows st))\<rparr>],
        events := events st @ [Saved (inst\<lparr>pk := Some (fresh_pk (rows st))\<rparr>) u]\<rparr>"
  by (simp add: Model_save_def Let_def)

lemma Model_delete_existing:
  assumes wf: "wf_store st" and mem: "inst \<in> set (rows st)"
  shows "Model_delete st inst u =
           Inr (st\<lparr>rows := filter (\<lambda>r. r \<noteq> inst) (rows st),
                   events := events st @ [Deleted inst u]\<rparr>)"
proof -
  from wf mem obtain k where k: "pk inst = Some k"
    using wf_pk_Some by blast
  have "filter (\<lambda>r. pk r \<noteq> Some k) (rows st) = filter (\<lambda>r. r \<noteq> inst) (rows st)"
  proof (rule filter_cong [OF refl])
    fix r assume rm: "r \<in> set (rows st)"
    show "(pk r \<noteq> Some k) = (r \<noteq> inst)"
      using wf_pk_inj [OF wf rm mem] k by auto
  qed
  then show ?thesis
    using k by (simp add: Model_delete_def)
qed

lemma new_relationship_of:
  "get_relationship self = Inr rel \<Longrightarrow>
   new_relationship self req =
     Inr \<lparr>pk = None, document_type_id = qs_document_type rel,
          metadata_type_id = qs_metadata_type rel, required = req\<rparr>"
  by (auto simp: get_relationship_def new_relationship_def split: option.splits)

lemma save_new_relationship:
  assumes "get_relationship self = Inr rel"
  shows "(case new_relationship self req of
            Inl e \<Rightarrow> Inl e
          | Inr new \<Rightarrow> Inr (Model_save st new u)) =
         Inr (st\<lparr>rows := rows st @ [created_row st rel req],
                 events := events st @ [Saved (created_row st rel req) u]\<rparr>)"
  by (simp add: new_relationship_of [OF assms] Model_save_new created_row_def)

lemma save_relationship_optional_existing:
  assumes "wf_store st" and "qs_rows st rel = [inst]"
  shows "save_relationship_optional st self rel =
           Inr (st\<lparr>rows := map (\<lambda>r. if r = inst then inst\<lparr>required := False\<rparr> else r) (rows st),
                   events := events st @ [Saved (inst\<lparr>required := False\<rparr>) (user_of self)]\<rparr>)"
proof -
  have mem: "inst \<in> set (rows st)"
    using qs_rows_single_mem [OF assms(2)] by simp
  have "Model_save st (inst\<lparr>required := False\<rparr>) (user_of self) =
          st\<lparr>rows := map (\<lambda>r. if r = inst then inst\<lparr>required := False\<rparr> else r) (rows st),
             events := events st @ [Saved (inst\<lparr>required := False\<rparr>) (user_of self)]\<rparr>"
    by (rule Model_save_existing [OF assms(1) mem]) simp
  then show ?thesis
    using assms(2) by (simp add: save_relationship_optional_def qs_exists_def qs_get_def)
qed

lemma save_relationship_required_existing:
  assumes "wf_store st" and "qs_rows st rel = [inst]"
  shows "save_relationship_required st self rel =
           Inr (st\<lparr>rows := map (\<lambda>r. if r = inst then inst\<lparr>required := True\<rparr> else r) (rows st),
                   events := events st @ [Saved (inst\<lparr>required := True\<rparr>) (user_of self)]\<rparr>)"
proof -
  have mem: "inst \<in> set (rows st)"
    using qs_rows_single_mem [OF assms(2)] by simp
  have "Model_save st (inst\<lparr>required := True\<rparr>) (user_of self) =
          st\<lparr>rows := map (\<lambda>r. if r = inst then inst\<lparr>required := True\<rparr> else r) (rows st),
             events := events st @ [Saved (inst\<lparr>required := True\<rparr>) (user_of self)]\<rparr>"
    by (rule Model_save_existing [OF assms(1) mem]) simp
  then show ?thesis
    using assms(2) by (simp add: save_relationship_required_def qs_exists_def qs_get_def)
qed

lemma save_relationship_optional_missing:
  assumes "get_relationship self = Inr rel" and "\<not> qs_exists st rel"
  shows "save_relationship_optional st self rel =
           Inr (st\<lparr>rows := rows st @ [created_row st rel False],
                   events := events st @ [Saved (created_row st rel False) (user_of self)]\<rparr>)"
  using assms(2) save_new_relationship [OF assms(1), where req = False and st = st and u = "user_of self"]
  by (simp add: save_relationship_optional_def required_default_def)

lemma save_relationship_required_missing:
  assumes "get_relationship self = Inr rel" and "\<not> qs_exists st rel"
  shows "save_relationship_required st self rel =
           Inr (st\<lparr>rows := rows st @ [created_row st rel True],
                   events := events st @ [Saved (created_row st rel True) (user_of self)]\<rparr>)"
  using assms(2) save_new_relationship [OF assms(1), where req = True and st = st and u = "user_of self"]
  by (simp add: save_relationship_required_def)

lemma save_relationship_none_existing:
  assumes "wf_store st" and "qs_rows st rel = [inst]"
  shows "save_relationship_none st self rel =
           Inr (st\<lparr>rows := filter (\<lambda>r. r \<noteq> inst) (rows st),
                   events := events st @ [Deleted inst (user_of self)]\<rparr>)"
proof -
  have mem: "inst \<in> set (rows st)"
    using qs_rows_single_mem [OF assms(2)] by simp
  show ?thesis
    using assms(2) Model_delete_existing [OF assms(1) mem, of "user_of self"]
    by (simp add: save_relationship_none_def qs_get_def)
qed

lemma save_relationship_none_missing:
  "\<not> qs_exists st rel \<Longrightarrow> save_relationship_none st self rel = Inl DoesNotExist"
  by (simp add: save_relationship_none_def qs_get_def qs_exists_def)

lemma getattr_none:
  "getattr_save_relationship (''save_relationship_'' @ ''none'') = Some save_relationship_none"
  by (simp add: getattr_save_relationship_def)

lemma getattr_optional:
  "getattr_save_relationship (''save_relationship_'' @ ''optional'') = Some save_relationship_optional"
  by (simp add: getattr_save_relationship_def)

lemma getattr_required:
  "getattr_save_relationship (''save_relationship_'' @ ''required'') = Some save_relationship_required"
  by (simp add: getattr_save_relationship_def)

lemma getattr_cases:
  "getattr_save_relationship (''save_relationship_'' @ chosen) =
     (if chosen = ''none'' then Some save_relationship_none
      else if chosen = ''optional'' then Some save_relationship_optional
      else if chosen = ''required'' then Some save_relationship_required
      else None)"
  by (simp add: getattr_save_relationship_def)

lemma save_dispatch:
  assumes "get_relationship self = Inr rel"
    and "cleaned_data ''relationship_type'' = Some chosen"
    and "initial_relationship_type self = Some init"
  shows "save st self cleaned_data =
           (if chosen = init then Inr st
            else if chosen = ''none'' then save_relationship_none st self rel
            else if chosen = ''optional'' then save_relationship_optional st self rel
            else if chosen = ''required'' then save_relationship_required st self rel
            else Inl (AttributeError (''save_relationship_'' @ chosen)))"
proof -
  have "save st self cleaned_data =
          (if chosen \<noteq> init
           then (case getattr_save_relationship (''save_relationship_'' @ chosen) of
                   None \<Rightarrow> Inl (AttributeError (''save_relationship_'' @ chosen))
                 | Some routine \<Rightarrow> routine st self rel)
           else Inr st)"
    using assms by (simp add: save_def)
  then show ?thesis
    by (simp only: getattr_cases) simp
qed

lemma unique_pairs_update:
  assumes "unique_pairs st"
    and "document_type_id inst' = document_type_id inst"
    and "metadata_type_id inst' = metadata_type_id inst"
  shows "unique_pairs (st\<lparr>rows := map (\<lambda>r. if r = inst then inst' else r) (rows st),
                          events := ev\<rparr>)"
proof -
  have "map (\<lambda>r. (document_type_id r, metadata_type_id r))
          (map (\<lambda>r. if r = inst then inst' else r) (rows st)) =
        map (\<lambda>r. (document_type_id r, metadata_type_id r)) (rows st)"
    using assms(2,3) by (simp add: comp_def if_distrib cong: if_cong)
  moreover have "rows (st\<lparr>rows := map (\<lambda>r. if r = inst then inst' else r) (rows st),
                       events := ev\<rparr>) = map (\<lambda>r. if r = inst then inst' else r) (rows st)"
    by simp
  ultimately have "unique_pairs (st\<lparr>rows := map (\<lambda>r. if r = inst then inst' else r) (rows st),
                              events := ev\<rparr>) = unique_pairs st"
    by (simp only: unique_pairs_def)
  with assms(1) show ?thesis
    by blast
qed

lemma wf_store_update:
  assumes "wf_store st" and "pk inst' = pk inst"
  shows "wf_store (st\<lparr>rows := map (\<lambda>r. if r = inst then inst' else r) (rows st),
                      events := ev\<rparr>)"
proof -
  have "map pk (map (\<lambda>r. if r = inst then inst' else r) (rows st)) = map pk (rows st)"
    using assms(2) by (simp add: comp_def if_distrib cong: if_cong)
  moreover have "rows (st\<lparr>rows := map (\<lambda>r. if r = inst then inst' else r) (rows st),
                       events := ev\<rparr>) = map (\<lambda>r. if r = inst then inst' else r) (rows st)"
    by simp
  ultimately have "wf_store (st\<lparr>rows := map (\<lambda>r. if r = inst then inst' else r) (rows st),
                          events := ev\<rparr>) = wf_store st"
    by (simp only: wf_store_def)
  with assms(1) show ?thesis
    by blast
qed

lemma unique_pairs_insert:
  assumes "unique_pairs st" and "\<not> qs_exists st rel"
  shows "unique_pairs (st\<lparr>rows := rows st @ [created_row st rel req], events := ev\<rparr>)"
proof -
  have "filter (\<lambda>r. document_type_id r = qs_document_type rel \<and>
                     metadata_type_id r = qs_metadata_type rel) (rows st) = []"
    using assms(2) by (simp add: qs_exists_def qs_rows_def)
  then have "(qs_document_type rel, qs_metadata_type rel) \<notin>
               set (map (\<lambda>r. (document_type_id r, metadata_type_id r)) (rows st))"
    by (auto simp: filter_empty_conv)
  then show ?thesis
    using assms(1) by (simp add: unique_pairs_def created_row_def)
qed

lemma wf_store_insert:
  assumes "wf_store st"
  shows "wf_store (st\<lparr>rows := rows st @ [created_row st rel req], events := ev\<rparr>)"
  using assms fresh_pk_notin [of "rows st"]
  by (simp add: wf_store_def created_row_def)

lemma unique_pairs_delete:
  "unique_pairs st \<Longrightarrow> unique_pairs (st\<lparr>rows := filter P (rows st), events := ev\<rparr>)"
  by (simp add: unique_pairs_def distinct_map_filter)

lemma wf_store_delete:
  "wf_store st \<Longrightarrow> wf_store (st\<lparr>rows := filter P (rows st), events := ev\<rparr>)"
  by (auto simp: wf_store_def distinct_map_filter)

lemma routine_preserves:
  assumes wf: "wf_store st" and uniq: "unique_pairs st"
    and rel: "get_relationship self = Inr rel"
    and routine: "routine \<in> {save_relationship_none, save_relationship_optional,
                               save_relationship_required}"
    and res: "routine st self rel = Inr st'"
  shows "wf_store st' \<and> unique_pairs st' \<and>
         (length (rows st) < length (rows st') \<longrightarrow> \<not> qs_exists st rel)"
proof (cases "qs_exists st rel")
  case True
  then obtain inst where inst: "qs_rows st rel = [inst]"
    using qs_exists_get [OF uniq] by blast
  from routine consider
      "routine = save_relationship_none"
    | "routine = save_relationship_optional"
    | "routine = save_relationship_required"
    by blast
  then show ?thesis
  proof cases
    case 1
    with res have "st' = st\<lparr>rows := filter (\<lambda>r. r \<noteq> inst) (rows st),
                              events := events st @ [Deleted inst (user_of self)]\<rparr>"
      by (simp add: save_relationship_none_existing [OF wf inst])
    moreover have "\<not> length (rows st) < length (filter (\<lambda>r. r \<noteq> inst) (rows st))"
      by (simp add: not_less)
    ultimately show ?thesis
      using wf uniq by (simp add: wf_store_delete unique_pairs_delete)
  next
    case 2
    with res have "st' = st\<lparr>rows := map (\<lambda>r. if r = inst then inst\<lparr>required := False\<rparr> else r) (rows st),
                              events := events st @ [Saved (inst\<lparr>required := False\<rparr>) (user_of self)]\<rparr>"
      by (simp add: save_relationship_optional_existing [OF wf inst])
    then show ?thesis
      using wf uniq by (simp add: wf_store_update unique_pairs_update)
  next
    case 3
    with res have "st' = st\<lparr>rows := map (\<lambda>r. if r = inst then inst\<lparr>required := True\<rparr> else r) (rows st),
                              events := events st @ [Saved (inst\<lparr>required := True\<rparr>) (user_of self)]\<rparr>"
      by (simp add: save_relationship_required_existing [OF wf inst])
    then show ?thesis
      using wf uniq by (simp add: wf_store_update unique_pairs_update)
  qed
next
  case False
  from routine consider
      "routine = save_relationship_none"
    | "routine = save_relationship_optional"
    | "routine = save_relationship_required"
    by blast
  then show ?thesis
  proof cases
    case 1
    with res False show ?thesis
      by (simp add: save_relationship_none_missing)
  next
    case 2
    with res have "st' = st\<lparr>rows := rows st @ [created_row st rel False],
                              events := events st @ [Saved (created_row st rel False) (user_of self)]\<rparr>"
      by (simp add: save_relationship_optional_missing [OF rel False])
    then show ?thesis
      using wf uniq False by (simp add: wf_store_insert unique_pairs_insert)
  next
    case 3
    with res have "st' = st\<lparr>rows := rows st @ [created_row st rel True],
                              events := events st @ [Saved (created_row st rel True) (user_of self)]\<rparr>"
      by (simp add: save_relationship_required_missing [OF rel False])
    then show ?thesis
      using wf uniq False by (simp add: wf_store_insert unique_pairs_insert)
  qed
qed

lemma save_Inr_cases:
  assumes "save st self cleaned_data = Inr st'"
  obtains rel chosen init where
    "get_relationship self = Inr rel"
    "cleaned_data ''relationship_type'' = Some chosen"
    "initial_relationship_type self = Some init"
  using assms by (auto simp: save_def split: sum.splits option.splits)

lemmas example_defs = dt_invoice_def mt_date_def row_other_def row_date_def store_attached_def
  store_detached_def qs_date_def form_date_def

lemma row_updated_length: "length (rows (row_updated st inst req u)) = length (rows st)"
  by (simp add: row_updated_def)

lemma row_updated_qs_rows:
  assumes "qs_rows st rel = [inst]"
  shows "qs_rows (row_updated st inst req u) rel = [inst\<lparr>required := req\<rparr>]"
proof -
  let ?P = "\<lambda>r. document_type_id r = qs_document_type rel \<and>
                  metadata_type_id r = qs_metadata_type rel"
  let ?f = "\<lambda>r. if r = inst then inst\<lparr>required := req\<rparr> else r"
  have "?P \<circ> ?f = ?P"
    by (rule ext) simp
  then have "filter ?P (map ?f (rows st)) = map ?f (filter ?P (rows st))"
    by (simp only: filter_map)
  also have "\<dots> = [inst\<lparr>required := req\<rparr>]"
    using assms by (simp add: qs_rows_def)
  finally show ?thesis
    by (simp add: qs_rows_def row_updated_def)
qed

lemma row_created_qs_rows:
  assumes "\<not> qs_exists st rel"
  shows "qs_rows (row_created st rel req u) rel = [created_row st rel req]"
  using assms by (simp add: qs_rows_def qs_exists_def row_created_def created_row_def)

lemma row_deleted_qs_rows:
  assumes "qs_rows st rel = [inst]"
  shows "qs_rows (row_deleted st inst u) rel = []"
proof -
  let ?P = "\<lambda>r. document_type_id r = qs_document_type rel \<and>
                  metadata_type_id r = qs_metadata_type rel"
  have "filter ?P (filter (\<lambda>r. r \<noteq> inst) (rows st)) =
        filter (\<lambda>r. r \<noteq> inst) (filter ?P (rows st))"
    by (simp add: conj_commute)
  also have "\<dots> = []"
    using assms by (simp add: qs_rows_def)
  finally show ?thesis
    by (simp add: qs_rows_def row_deleted_def)
qed

text \<open>
  Claim C1. The save routines for the target states \<^verbatim>\<open>optional\<close> and \<^verbatim>\<open>required\<close>, on a
  table that holds at most one row per pair. If a row exists for the form's pair, the routine
  returns the store in which that row has \<^verbatim>\<open>required\<close> set to false (to true for
  \<^verbatim>\<open>required\<close>), logged as one save by the acting user: the table keeps its length and
  the pair still has that single row. If no row exists, the routine returns the store with
  exactly one row appended for the pair, non-required (required for \<^verbatim>\<open>required\<close>),
  logged as one save by the acting user. \<^verbatim>\<open>save\<close> runs the routine whenever the chosen
  state is \<^verbatim>\<open>optional\<close> (\<^verbatim>\<open>required\<close>) and differs from the initial state.
\<close>

theorem save_relationship_optional_required:
  assumes wf: "wf_store st" and uniq: "unique_pairs st"
    and rel: "get_relationship self = Inr rel"
  shows
    "(qs_exists st rel \<longrightarrow>
        (\<exists>inst. qs_rows st rel = [inst] \<and>
           save_relationship_optional st self rel = Inr (row_updated st inst False (user_of self)) \<and>
           save_relationship_required st self rel = Inr (row_updated st inst True (user_of self)) \<and>
           (\<forall>req. length (rows (row_updated st inst req (user_of self))) = length (rows st) \<and>
                  qs_rows (row_updated st inst req (user_of self)) rel =
                    [inst\<lparr>required := req\<rparr>]))) \<and>
     (\<not> qs_exists st rel \<longrightarrow>
        save_relationship_optional st self rel = Inr (row_created st rel False (user_of self)) \<and>
        save_relationship_required st self rel = Inr (row_created st rel True (user_of self)) \<and>
        (\<forall>req. rows (row_created st rel req (user_of self)) = rows st @ [created_row st rel req] \<and>
               required (created_row st rel req) = req \<and>
               qs_rows (row_created st rel req (user_of self)) rel = [created_row st rel req])) \<and>
     (\<forall>cleaned_data init.
        initial_relationship_type self = Some init \<longrightarrow>
        (cleaned_data ''relationship_type'' = Some ''optional'' \<and> init \<noteq> ''optional'' \<longrightarrow>
           save st self cleaned_data = save_relationship_optional st self rel) \<and>
        (cleaned_data ''relationship_type'' = Some ''required'' \<and> init \<noteq> ''required'' \<longrightarrow>
           save st self cleaned_data = save_relationship_required st self rel))"
proof (intro conjI impI allI)
  assume ex: "qs_exists st rel"
  then obtain inst where inst: "qs_rows st rel = [inst]"
    using qs_exists_get [OF uniq] by blast
  have "save_relationship_optional st self rel = Inr (row_updated st inst False (user_of self))"
    by (simp add: save_relationship_optional_existing [OF wf inst] row_updated_def)
  moreover have "save_relationship_required st self rel = Inr (row_updated st inst True (user_of self))"
    by (simp add: save_relationship_required_existing [OF wf inst] row_updated_def)
  ultimately show "\<exists>inst. qs_rows st rel = [inst] \<and>
           save_relationship_optional st self rel = Inr (row_updated st inst False (user_of self)) \<and>
           save_relationship_required st self rel = Inr (row_updated st inst True (user_of self)) \<and>
           (\<forall>req. length (rows (row_updated st inst req (user_of self))) = length (rows st) \<and>
                  qs_rows (row_updated st inst req (user_of self)) rel =
                    [inst\<lparr>required := req\<rparr>])"
    using inst row_updated_length row_updated_qs_rows [OF inst] by blast
next
  assume "\<not> qs_exists st rel"
  then show "save_relationship_optional st self rel = Inr (row_created st rel False (user_of self))"
    by (simp add: save_relationship_optional_missing [OF rel] row_created_def)
next
  assume "\<not> qs_exists st rel"
  then show "save_relationship_required st self rel = Inr (row_created st rel True (user_of self))"
    by (simp add: save_relationship_required_missing [OF rel] row_created_def)
next
  fix req
  show "rows (row_created st rel req (user_of self)) = rows st @ [created_row st rel req]"
    by (simp add: row_created_def)
next
  fix req
  show "required (created_row st rel req) = req"
    by (simp add: created_row_def)
next
  fix req
  assume "\<not> qs_exists st rel"
  then show "qs_rows (row_created st rel req (user_of self)) rel = [created_row st rel req]"
    by (rule row_created_qs_rows)
next
  fix cleaned_data init
  assume "initial_relationship_type self = Some init"
    and "cleaned_data ''relationship_type'' = Some ''optional'' \<and> init \<noteq> ''optional''"
  then show "save st self cleaned_data = save_relationship_optional st self rel"
    using save_dispatch [OF rel, of cleaned_data "''optional''" init st] by auto
next
  fix cleaned_data init
  assume "initial_relationship_type self = Some init"
    and "cleaned_data ''relationship_type'' = Some ''required'' \<and> init \<noteq> ''required''"
  then show "save st self cleaned_data = save_relationship_required st self rel"
    using save_dispatch [OF rel, of cleaned_data "''required''" init st] by auto
qed

lemma store_attached_wf: "wf_store store_attached \<and> unique_pairs store_attached"
  by (simp add: wf_store_def unique_pairs_def example_defs)

lemma store_detached_wf: "wf_store store_detached \<and> unique_pairs store_detached"
  by (simp add: wf_store_def unique_pairs_def example_defs)

lemma form_date_relationship: "get_relationship (form_date init) = Inr qs_date"
  by (simp add: get_relationship_def example_defs)

theorem save_relationship_optional_required_witness:
  "wf_store store_attached \<and> unique_pairs store_attached \<and>
   wf_store store_detached \<and> unique_pairs store_detached \<and>
   get_relationship (form_date ''optional'') = Inr qs_date \<and>
   get_relationship (form_date ''none'') = Inr qs_date \<and>
   qs_exists store_attached qs_date \<and>
   save store_attached (form_date ''optional'') [''relationship_type'' \<mapsto> ''required''] =
     Inr \<lparr>rows = [row_other, row_date\<lparr>required := True\<rparr>],
          events = [Saved (row_date\<lparr>required := True\<rparr>) ''admin'']\<rparr> \<and>
   \<not> qs_exists store_detached qs_date \<and>
   save store_detached (form_date ''none'') [''relationship_type'' \<mapsto> ''optional''] =
     Inr \<lparr>rows = [row_other,
                  \<lparr>pk = Some 3, document_type_id = 1, metadata_type_id = 7, required = False\<rparr>],
          events = [Saved \<lparr>pk = Some 3, document_type_id = 1, metadata_type_id = 7,
                           required = False\<rparr> ''admin'']\<rparr>"
proof -
  have a: "wf_store store_attached" "unique_pairs store_attached"
    using store_attached_wf by simp_all
  have d: "wf_store store_detached" "unique_pairs store_detached"
    using store_detached_wf by simp_all
  have ex: "qs_rows store_attached qs_date = [row_date]"
    by (simp add: qs_rows_def example_defs)
  have nex: "qs_rows store_detached qs_date = []"
    by (simp add: qs_rows_def example_defs)
  have 1: "save store_attached (form_date ''optional'') [''relationship_type'' \<mapsto> ''required''] =
           Inr (row_updated store_attached row_date True ''admin'')"
    using save_relationship_optional_required
            [OF a form_date_relationship [of "''optional''"]] ex
    by (simp add: qs_exists_def form_date_def)
  have 2: "save store_detached (form_date ''none'') [''relationship_type'' \<mapsto> ''optional''] =
           Inr (row_created store_detached qs_date False ''admin'')"
    using save_relationship_optional_required
            [OF d form_date_relationship [of "''none''"]] nex
    by (simp add: qs_exists_def form_date_def)
  show ?thesis
    using a d ex nex form_date_relationship
    by (simp add: 1 2 qs_exists_def)
       (simp add: row_updated_def row_created_def created_row_def fresh_pk_def example_defs)
qed

lemma get_relationship_type_initial:
  "initial f = initial f' \<Longrightarrow> get_relationship_type st f = get_relationship_type st f'"
  by (simp add: get_relationship_type_def get_relationship_def split: option.splits)

lemma get_relationship_initial:
  "initial f = initial f' \<Longrightarrow> get_relationship f = get_relationship f'"
  by (simp add: get_relationship_def split: option.splits)

lemma get_relationship_type_Inr:
  "get_relationship_type st f = Inr t \<Longrightarrow> \<exists>rel. get_relationship f = Inr rel"
  by (auto simp: get_relationship_type_def split: sum.splits)

lemma init_with_main_model:
  assumes "DocumentTypeMetadataTypeRelationshipForm_init st0 kwargs = Inr self"
    and "kw_initial kwargs = Some ini" and "main_model ini = Some m"
  shows "initial self = ini \<and>
         (\<exists>init. get_relationship_type st0 self = Inr init \<and>
                 initial_relationship_type self = Some init \<and>
                 relationship_type_initial self = Some init)"
proof -
  from assms(1) obtain u where u: "kw_user kwargs = Some u"
    by (auto simp: DocumentTypeMetadataTypeRelationshipForm_init_def split: option.splits)
  let ?self0 = "\<lparr>user_of = u, initial = ini, label_initial = None,
                  relationship_type_initial = None, initial_relationship_type = None\<rparr>"
  from assms u obtain l t where
    t: "get_relationship_type st0 (?self0\<lparr>label_initial := Some l\<rparr>) = Inr t"
    and self: "self = ?self0\<lparr>label_initial := Some l, relationship_type_initial := Some t,
                             initial_relationship_type := Some t\<rparr>"
    by (auto simp: DocumentTypeMetadataTypeRelationshipForm_init_def Let_def
             split: sum.splits)
  have "get_relationship_type st0 self = get_relationship_type st0 (?self0\<lparr>label_initial := Some l\<rparr>)"
    by (rule get_relationship_type_initial) (simp add: self)
  with t self show ?thesis
    by simp
qed

text \<open>
  Claim C4. For a form whose constructor computed the initial relationship state (its
  \<^verbatim>\<open>initial\<close> holds \<^verbatim>\<open>main_model\<close>): when the chosen state equals that initial state,
  \<^verbatim>\<open>save\<close> returns the store as it was, rows and log of persistence calls unchanged; when
  it differs, \<^verbatim>\<open>save\<close> is exactly the one routine named after the chosen state, and a
  state that names no routine raises \<^verbatim>\<open>AttributeError\<close>.
\<close>

theorem save_noop_or_dispatch:
  assumes init: "DocumentTypeMetadataTypeRelationshipForm_init st0 kwargs = Inr self"
    and ini: "kw_initial kwargs = Some ini" and main: "main_model ini = Some m"
    and chosen: "cleaned_data ''relationship_type'' = Some chosen"
  shows
    "\<exists>rel init.
       get_relationship self = Inr rel \<and>
       get_relationship_type st0 self = Inr init \<and>
       initial_relationship_type self = Some init \<and>
       (chosen = init \<longrightarrow> save st self cleaned_data = Inr st) \<and>
       (chosen \<noteq> init \<longrightarrow>
          (chosen = ''none'' \<longrightarrow>
             save st self cleaned_data = save_relationship_none st self rel) \<and>
          (chosen = ''optional'' \<longrightarrow>
             save st self cleaned_data = save_relationship_optional st self rel) \<and>
          (chosen = ''required'' \<longrightarrow>
             save st self cleaned_data = save_relationship_required st self rel) \<and>
          (chosen \<notin> {''none'', ''optional'', ''required''} \<longrightarrow>
             save st self cleaned_data =
               Inl (AttributeError (''save_relationship_'' @ chosen))))"
proof -
  from init_with_main_model [OF init ini main] obtain init where
    t: "get_relationship_type st0 self = Inr init"
    and a: "initial_relationship_type self = Some init"
    by blast
  from get_relationship_type_Inr [OF t] obtain rel where rel: "get_relationship self = Inr rel"
    by blast
  have e: "save st self cleaned_data =
           (if chosen = init then Inr st
            else if chosen = ''none'' then save_relationship_none st self rel
            else if chosen = ''optional'' then save_relationship_optional st self rel
            else if chosen = ''required'' then save_relationship_required st self rel
            else Inl (AttributeError (''save_relationship_'' @ chosen)))"
    using rel chosen a
    by (rule save_dispatch [where cleaned_data = cleaned_data and chosen = chosen])
  have same: "chosen = init \<longrightarrow> save st self cleaned_data = Inr st"
    by (simp add: e)
  have n: "save st self cleaned_data = save_relationship_none st self rel"
    if "chosen \<noteq> init" and "chosen = ''none''"
    using that by (simp add: e)
  have o: "save st self cleaned_data = save_relationship_optional st self rel"
    if "chosen \<noteq> init" and "chosen = ''optional''"
    using that by (simp add: e)
  have r: "save st self cleaned_data = save_relationship_required st self rel"
    if "chosen \<noteq> init" and "chosen = ''required''"
    using that by (simp add: e)
  have x: "save st self cleaned_data = Inl (AttributeError (''save_relationship_'' @ chosen))"
    if "chosen \<noteq> init" and "chosen \<notin> {''none'', ''optional'', ''required''}"
  proof -
    from that(2) have "chosen \<noteq> ''none''" "chosen \<noteq> ''optional''" "chosen \<noteq> ''required''"
      by (simp_all only: insert_iff empty_iff de_Morgan_disj simp_thms)
    with that(1) show ?thesis
      by (simp only: e if_False)
  qed
  show ?thesis
  proof (intro exI conjI impI)
    show "get_relationship self = Inr rel" by (rule rel)
    show "get_relationship_type st0 self = Inr init" by (rule t)
    show "initial_relationship_type self = Some init" by (rule a)
    show "save st self cleaned_data = Inr st" if "chosen = init"
      using same that by (rule mp)
    show "save st self cleaned_data = save_relationship_none st self rel"
      if "chosen \<noteq> init" and "chosen = ''none''"
      using that by (rule n)
    show "save st self cleaned_data = save_relationship_optional st self rel"
      if "chosen \<noteq> init" and "chosen = ''optional''"
      using that by (rule o)
    show "save st self cleaned_data = save_relationship_required st self rel"
      if "chosen \<noteq> init" and "chosen = ''required''"
      using that by (rule r)
    show "save st self cleaned_data = Inl (AttributeError (''save_relationship_'' @ chosen))"
      if "chosen \<noteq> init" and "chosen \<notin> {''none'', ''optional'', ''required''}"
      using that by (rule x)
  qed
qed

lemma init_attached:
  "DocumentTypeMetadataTypeRelationshipForm_init store_attached kwargs_date =
     Inr (form_date ''optional'')"
  by (simp add: DocumentTypeMetadataTypeRelationshipForm_init_def kwargs_date_def
        get_relationship_type_def get_relationship_def qs_exists_def qs_get_def qs_rows_def
        RELATIONSHIP_TYPE_OPTIONAL_def example_defs)

theorem save_noop_or_dispatch_witness:
  "DocumentTypeMetadataTypeRelationshipForm_init store_attached kwargs_date =
     Inr (form_date ''optional'') \<and>
   save store_attached (form_date ''optional'') [''relationship_type'' \<mapsto> ''optional''] =
     Inr store_attached \<and>
   save store_attached (form_date ''optional'') [''relationship_type'' \<mapsto> ''none''] =
     save_relationship_none store_attached (form_date ''optional'') qs_date \<and>
   save store_attached (form_date ''optional'') [''relationship_type'' \<mapsto> ''required''] =
     save_relationship_required store_attached (form_date ''optional'') qs_date"
proof -
  have k: "kw_initial kwargs_date =
             Some \<lparr>main_model = Some ''document_type'', init_document_type = Some dt_invoice,
                   init_metadata_type = Some mt_date\<rparr>"
    by (simp add: kwargs_date_def)
  have m: "main_model \<lparr>main_model = Some ''document_type'', init_document_type = Some dt_invoice,
                       init_metadata_type = Some mt_date\<rparr> = Some ''document_type''"
    by simp
  have i: "initial_relationship_type (form_date ''optional'') = Some ''optional''"
    by (simp add: form_date_def)
  have 1: "save store_attached (form_date ''optional'') [''relationship_type'' \<mapsto> ''optional''] =
             Inr store_attached"
    using save_noop_or_dispatch [OF init_attached k m,
            of "[''relationship_type'' \<mapsto> ''optional'']" "''optional''" store_attached] i
    by auto
  have 2: "save store_attached (form_date ''optional'') [''relationship_type'' \<mapsto> ''none''] =
             save_relationship_none store_attached (form_date ''optional'') qs_date"
    using save_noop_or_dispatch [OF init_attached k m,
            of "[''relationship_type'' \<mapsto> ''none'']" "''none''" store_attached] i
      form_date_relationship [of "''optional''"]
    by auto
  have 3: "save store_attached (form_date ''optional'') [''relationship_type'' \<mapsto> ''required''] =
             save_relationship_required store_attached (form_date ''optional'') qs_date"
    using save_noop_or_dispatch [OF init_attached k m,
            of "[''relationship_type'' \<mapsto> ''required'']" "''required''" store_attached] i
      form_date_relationship [of "''optional''"]
    by auto
  show ?thesis
    using init_attached 1 2 3 by simp
qed

text \<open>
  Claim C3. The save routine for the target state \<^verbatim>\<open>none\<close>, on a table that holds at
  most one row per pair: with no row for the pair it raises \<^verbatim>\<open>DoesNotExist\<close>; with a
  row, it returns the store without that row, logged as one delete by the acting user.
  \<^verbatim>\<open>save\<close> runs the routine whenever the chosen state is \<^verbatim>\<open>none\<close> and the initial state
  is not.
\<close>

theorem save_relationship_none_outcome:
  assumes wf: "wf_store st" and uniq: "unique_pairs st"
  shows
    "(\<not> qs_exists st rel \<longrightarrow> save_relationship_none st self rel = Inl DoesNotExist) \<and>
     (qs_exists st rel \<longrightarrow>
        (\<exists>inst. qs_rows st rel = [inst] \<and>
           save_relationship_none st self rel = Inr (row_deleted st inst (user_of self)) \<and>
           rows (row_deleted st inst (user_of self)) = filter (\<lambda>r. r \<noteq> inst) (rows st) \<and>
           events (row_deleted st inst (user_of self)) =
             events st @ [Deleted inst (user_of self)] \<and>
           qs_rows (row_deleted st inst (user_of self)) rel = [])) \<and>
     (\<forall>cleaned_data init.
        get_relationship self = Inr rel \<and>
        initial_relationship_type self = Some init \<and>
        cleaned_data ''relationship_type'' = Some ''none'' \<and> init \<noteq> ''none'' \<longrightarrow>
        save st self cleaned_data = save_relationship_none st self rel)"
proof (intro conjI impI allI)
  assume "\<not> qs_exists st rel"
  then show "save_relationship_none st self rel = Inl DoesNotExist"
    by (rule save_relationship_none_missing)
next
  assume "qs_exists st rel"
  then obtain inst where inst: "qs_rows st rel = [inst]"
    using qs_exists_get [OF uniq] by blast
  have "save_relationship_none st self rel = Inr (row_deleted st inst (user_of self))"
    by (simp add: save_relationship_none_existing [OF wf inst] row_deleted_def)
  moreover have "rows (row_deleted st inst (user_of self)) = filter (\<lambda>r. r \<noteq> inst) (rows st)"
    and "events (row_deleted st inst (user_of self)) = events st @ [Deleted inst (user_of self)]"
    by (simp_all add: row_deleted_def)
  ultimately show "\<exists>inst. qs_rows st rel = [inst] \<and>
           save_relationship_none st self rel = Inr (row_deleted st inst (user_of self)) \<and>
           rows (row_deleted st inst (user_of self)) = filter (\<lambda>r. r \<noteq> inst) (rows st) \<and>
           events (row_deleted st inst (user_of self)) =
             events st @ [Deleted inst (user_of self)] \<and>
           qs_rows (row_deleted st inst (user_of self)) rel = []"
    using inst row_deleted_qs_rows [OF inst] by blast
next
  fix cleaned_data init
  assume a: "get_relationship self = Inr rel \<and>
        initial_relationship_type self = Some init \<and>
        cleaned_data ''relationship_type'' = Some ''none'' \<and> init \<noteq> ''none''"
  then show "save st self cleaned_data = save_relationship_none st self rel"
    using save_dispatch [of self rel cleaned_data "''none''" init st] by auto
qed

theorem save_relationship_none_outcome_witness:
  "wf_store store_attached \<and> unique_pairs store_attached \<and>
   wf_store store_detached \<and> unique_pairs store_detached \<and>
   \<not> qs_exists store_detached qs_date \<and>
   save store_detached (form_date ''optional'') [''relationship_type'' \<mapsto> ''none''] =
     Inl DoesNotExist \<and>
   qs_exists store_attached qs_date \<and>
   save store_attached (form_date ''optional'') [''relationship_type'' \<mapsto> ''none''] =
     Inr \<lparr>rows = [row_other], events = [Deleted row_date ''admin'']\<rparr>"
proof -
  have a: "wf_store store_attached" "unique_pairs store_attached"
    using store_attached_wf by simp_all
  have d: "wf_store store_detached" "unique_pairs store_detached"
    using store_detached_wf by simp_all
  have ex: "qs_rows store_attached qs_date = [row_date]"
    by (simp add: qs_rows_def example_defs)
  have nex: "qs_rows store_detached qs_date = []"
    by (simp add: qs_rows_def example_defs)
  have i: "initial_relationship_type (form_date ''optional'') = Some ''optional''"
    by (simp add: form_date_def)
  have 1: "save store_detached (form_date ''optional'') [''relationship_type'' \<mapsto> ''none''] =
             Inl DoesNotExist"
    using save_relationship_none_outcome [OF d, of qs_date "form_date ''optional''"] nex i
      form_date_relationship [of "''optional''"]
    by (simp add: qs_exists_def)
  have 2: "save store_attached (form_date ''optional'') [''relationship_type'' \<mapsto> ''none''] =
             Inr (row_deleted store_attached row_date ''admin'')"
    using save_relationship_none_outcome [OF a, of qs_date "form_date ''optional''"] ex i
      form_date_relationship [of "''optional''"]
    by (simp add: qs_exists_def form_date_def)
  show ?thesis
    using a d ex nex
    by (simp add: 1 2 qs_exists_def) (simp add: row_deleted_def example_defs)
qed

lemma save_outcomes:
  assumes wf: "wf_store st" and uniq: "unique_pairs st"
    and res: "save st self cleaned_data = Inr st'"
  shows "\<exists>rel. get_relationship self = Inr rel \<and>
           (st' = st \<or>
            (\<exists>routine \<in> {save_relationship_none, save_relationship_optional,
                           save_relationship_required}. routine st self rel = Inr st'))"
proof -
  from res obtain rel chosen init where
    rel: "get_relationship self = Inr rel"
    and chosen: "cleaned_data ''relationship_type'' = Some chosen"
    and init: "initial_relationship_type self = Some init"
    by (rule save_Inr_cases)
  have "st' = st \<or>
        save_relationship_none st self rel = Inr st' \<or>
        save_relationship_optional st self rel = Inr st' \<or>
        save_relationship_required st self rel = Inr st'"
    using res save_dispatch [where cleaned_data = cleaned_data and chosen = chosen and st = st,
                 OF rel chosen init]
    by (auto split: if_splits)
  with rel show ?thesis
    by auto
qed

text \<open>
  Claim C6. Every successful \<^verbatim>\<open>save\<close> keeps the table at one row per pair at most (and
  its primary keys set and distinct). The table grows only when no row existed for the
  form's pair; when a row existed, the result is the store unchanged, that row deleted, or
  that row updated in place.
\<close>

theorem save_preserves_unique_pairs:
  assumes wf: "wf_store st" and uniq: "unique_pairs st"
    and res: "save st self cleaned_data = Inr st'"
  shows
    "unique_pairs st' \<and> wf_store st' \<and>
     (\<exists>rel. get_relationship self = Inr rel \<and>
        (length (rows st) < length (rows st') \<longrightarrow> \<not> qs_exists st rel) \<and>
        (qs_exists st rel \<longrightarrow>
           (\<exists>inst. qs_rows st rel = [inst] \<and>
              st' \<in> {st, row_deleted st inst (user_of self),
                     row_updated st inst False (user_of self),
                     row_updated st inst True (user_of self)})) \<and>
        (\<not> qs_exists st rel \<longrightarrow>
           st' \<in> {st, row_created st rel False (user_of self),
                  row_created st rel True (user_of self)}))"
proof -
  from save_outcomes [OF wf uniq res] obtain rel where
    rel: "get_relationship self = Inr rel"
    and out: "st' = st \<or>
            (\<exists>routine \<in> {save_relationship_none, save_relationship_optional,
                           save_relationship_required}. routine st self rel = Inr st')"
    by blast
  have inv: "unique_pairs st' \<and> wf_store st' \<and>
             (length (rows st) < length (rows st') \<longrightarrow> \<not> qs_exists st rel)"
    using out
  proof
    assume "st' = st"
    with wf uniq show ?thesis by simp
  next
    assume "\<exists>routine \<in> {save_relationship_none, save_relationship_optional,
                         save_relationship_required}. routine st self rel = Inr st'"
    then obtain routine where
      "routine \<in> {save_relationship_none, save_relationship_optional,
                   save_relationship_required}"
      and "routine st self rel = Inr st'"
      by blast
    from routine_preserves [OF wf uniq rel this] show ?thesis
      by blast
  qed
  have ex: "\<exists>inst. qs_rows st rel = [inst] \<and>
              st' \<in> {st, row_deleted st inst (user_of self),
                     row_updated st inst False (user_of self),
                     row_updated st inst True (user_of self)}"
    if e: "qs_exists st rel"
  proof -
    from e obtain inst where inst: "qs_rows st rel = [inst]"
      using qs_exists_get [OF uniq] by blast
    have "st' \<in> {st, row_deleted st inst (user_of self),
                     row_updated st inst False (user_of self),
                     row_updated st inst True (user_of self)}"
      using out
      by (auto simp: save_relationship_none_existing [OF wf inst]
            save_relationship_optional_existing [OF wf inst]
            save_relationship_required_existing [OF wf inst]
            row_deleted_def row_updated_def)
    with inst show ?thesis by blast
  qed
  have nex: "st' \<in> {st, row_created st rel False (user_of self),
                  row_created st rel True (user_of self)}"
    if n: "\<not> qs_exists st rel"
    using out
    by (auto simp: save_relationship_none_missing [OF n]
          save_relationship_optional_missing [OF rel n]
          save_relationship_required_missing [OF rel n] row_created_def)
  from inv ex nex rel show ?thesis
    by blast
qed

lemma cleaned_relationship_type: "cleaned chosen ''relationship_type'' = Some chosen"
  by (simp add: cleaned_def)

lemma form_date_initial_relationship_type:
  "initial_relationship_type (form_date init) = Some init"
  by (simp add: form_date_def)

lemma form_date_user: "user_of (form_date init) = ''admin''"
  by (simp add: form_date_def)

theorem save_preserves_unique_pairs_witness:
  "wf_store store_detached \<and> unique_pairs store_detached \<and>
   save store_detached (form_date ''none'') (cleaned ''required'') =
     Inr \<lparr>rows = [row_other,
                  \<lparr>pk = Some 3, document_type_id = 1, metadata_type_id = 7, required = True\<rparr>],
          events = [Saved \<lparr>pk = Some 3, document_type_id = 1, metadata_type_id = 7,
                           required = True\<rparr> ''admin'']\<rparr> \<and>
   unique_pairs \<lparr>rows = [row_other,
                  \<lparr>pk = Some 3, document_type_id = 1, metadata_type_id = 7, required = True\<rparr>],
          events = [Saved \<lparr>pk = Some 3, document_type_id = 1, metadata_type_id = 7,
                           required = True\<rparr> ''admin'']\<rparr>"
proof -
  have d: "wf_store store_detached" "unique_pairs store_detached"
    using store_detached_wf by simp_all
  have rel: "get_relationship (form_date ''none'') = Inr qs_date"
    by (rule form_date_relationship)
  have nex: "\<not> qs_exists store_detached qs_date"
    by (simp add: qs_exists_def qs_rows_def example_defs)
  have "save store_detached (form_date ''none'') (cleaned ''required'') =
          save_relationship_required store_detached (form_date ''none'') qs_date"
    using save_dispatch [where cleaned_data = "cleaned ''required''"
             and chosen = "''required''" and st = store_detached,
             OF rel cleaned_relationship_type form_date_initial_relationship_type]
    by simp
  also have "\<dots> = Inr (row_created store_detached qs_date True ''admin'')"
    by (simp only: save_relationship_required_missing [OF rel nex] row_created_def
          form_date_user)
  also have "row_created store_detached qs_date True ''admin'' =
     \<lparr>rows = [row_other,
                  \<lparr>pk = Some 3, document_type_id = 1, metadata_type_id = 7, required = True\<rparr>],
          events = [Saved \<lparr>pk = Some 3, document_type_id = 1, metadata_type_id = 7,
                           required = True\<rparr> ''admin'']\<rparr>"
    by (simp add: row_created_def created_row_def fresh_pk_def example_defs)
  finally have s: "save store_detached (form_date ''none'') (cleaned ''required'') =
     Inr \<lparr>rows = [row_other,
                  \<lparr>pk = Some 3, document_type_id = 1, metadata_type_id = 7, required = True\<rparr>],
          events = [Saved \<lparr>pk = Some 3, document_type_id = 1, metadata_type_id = 7,
                           required = True\<rparr> ''admin'']\<rparr>" .
  from save_preserves_unique_pairs [OF d s] have
    "unique_pairs \<lparr>rows = [row_other,
                  \<lparr>pk = Some 3, document_type_id = 1, metadata_type_id = 7, required = True\<rparr>],
          events = [Saved \<lparr>pk = Some 3, document_type_id = 1, metadata_type_id = 7,
                           required = True\<rparr> ''admin'']\<rparr>"
    by (rule conjunct1)
  with d s show ?thesis
    by (intro conjI)
qed

section \<open>Properties of the value, remove and add forms\<close>

lemma set_field_attrs [simp]:
  "form_metadata_type (set_field name g self) = form_metadata_type self"
  "form_document_type (set_field name g self) = form_document_type self"
  by (simp_all add: set_field_def)

lemma set_field_fields:
  "form_fields (set_field name g self) k =
     (if k = name then map_option g (form_fields self name) else form_fields self k)"
  by (simp add: set_field_def)

lemma init_required_attrs [simp]:
  "form_metadata_type (init_required mt req self) = form_metadata_type self"
  "form_document_type (init_required mt req self) = form_document_type self"
  by (simp_all add: init_required_def Let_def)

lemma init_lookup_attrs [simp]:
  "form_metadata_type (snd (init_lookup e mt req self)) = form_metadata_type self"
  "form_document_type (snd (init_lookup e mt req self)) = form_document_type self"
  by (simp_all add: init_lookup_def Let_def split: sum.splits)

lemma init_default_attrs [simp]:
  "form_metadata_type (snd (init_default e mt self)) = form_metadata_type self"
  "form_document_type (snd (init_default e mt self)) = form_document_type self"
  by (simp_all add: init_default_def split: sum.splits)

lemma init_lookup_other:
  "k \<noteq> ''value'' \<Longrightarrow>
   form_fields (snd (init_lookup e mt req self)) k = form_fields self k"
  by (simp add: init_lookup_def Let_def set_field_fields split: sum.splits)

lemma init_default_other:
  "k \<noteq> ''value'' \<Longrightarrow>
   form_fields (snd (init_default e mt self)) k = form_fields self k"
  by (simp add: init_default_def set_field_fields split: sum.splits)

lemma init_required_update:
  "form_fields (init_required mt False self) ''update'' =
     map_option (\<lambda>f. f\<lparr>f_initial := PyBool False\<rparr>) (form_fields self ''update'')"
  by (simp add: init_required_def Let_def set_field_fields)

lemma init_required_update_kept:
  "form_fields (init_required mt True self) ''update'' = form_fields self ''update''"
  by (simp add: init_required_def Let_def set_field_fields)

lemma init_lookup_failure:
  assumes "truthy_opt (mt_lookup mt)" and "get_lookup_values e mt = Inl msg"
  shows "form_fields (snd (init_lookup e mt req self)) ''value'' =
           Some ((forms_ChoiceField (label_of self ''value''))
                   \<lparr>f_initial := PyStr (''Lookup value error: '' @ msg),
                    f_widget := forms_TextInput [''readonly'' \<mapsto> ''readonly'']\<rparr>)"
  using assms by (simp add: init_lookup_def Let_def set_field_fields)

lemma init_default_value:
  "form_fields (snd (init_default e mt self)) ''value'' =
     (if truthy_opt (mt_default mt)
      then (case get_default_value e mt of
              Inr d \<Rightarrow> map_option (\<lambda>f. f\<lparr>f_initial := PyStr d\<rparr>) (form_fields self ''value'')
            | Inl m \<Rightarrow>
                map_option
                  (\<lambda>f. f\<lparr>f_initial := PyStr (''Default value error: '' @ m),
                          f_widget := forms_TextInput [''readonly'' \<mapsto> ''readonly'']\<rparr>)
                  (form_fields self ''value''))
      else form_fields self ''value'')"
  by (simp add: init_default_def set_field_fields split: sum.splits)

lemma init_fields_result:
  assumes "kw_value_initial kwargs = Some ini"
    and "i_metadata_type ini = Some mt" and "i_document_type ini = Some dt"
  shows "DocumentMetadataForm_init_fields declared e kwargs =
           (GetRequiredFor (mt_pk mt) (dt_pk dt) #
              fst (init_lookup e mt (get_required_for e mt dt)
                     (init_required mt (get_required_for e mt dt)
                        \<lparr>form_fields = declared, form_metadata_type = Some mt,
                         form_document_type = Some dt\<rparr>)) @
              fst (init_default e mt
                     (snd (init_lookup e mt (get_required_for e mt dt)
                        (init_required mt (get_required_for e mt dt)
                           \<lparr>form_fields = declared, form_metadata_type = Some mt,
                            form_document_type = Some dt\<rparr>)))),
            Inr (snd (init_default e mt
                     (snd (init_lookup e mt (get_required_for e mt dt)
                        (init_required mt (get_required_for e mt dt)
                           \<lparr>form_fields = declared, form_metadata_type = Some mt,
                            form_document_type = Some dt\<rparr>))))))"
  using assms
  by (simp add: DocumentMetadataForm_init_fields_def Let_def case_prod_beta)

lemma init_fields_attrs:
  assumes "DocumentMetadataForm_init_fields declared e kwargs = (calls, Inr self)"
    and "kw_value_initial kwargs = Some ini"
    and "i_metadata_type ini = Some mt" and "i_document_type ini = Some dt"
  shows "form_metadata_type self = Some mt \<and> form_document_type self = Some dt"
  using assms(1) unfolding init_fields_result [OF assms(2-4)]
  by auto

lemma init_fields_update:
  assumes "DocumentMetadataForm_init_fields declared e kwargs = (calls, Inr self)"
    and "kw_value_initial kwargs = Some ini"
    and "i_metadata_type ini = Some mt" and "i_document_type ini = Some dt"
  shows "form_fields self ''update'' =
           (if get_required_for e mt dt then declared ''update''
            else map_option (\<lambda>f. f\<lparr>f_initial := PyBool False\<rparr>) (declared ''update''))"
proof -
  have u: "''update'' \<noteq> ''value''" by simp
  from assms(1) have self: "self = snd (init_default e mt
                     (snd (init_lookup e mt (get_required_for e mt dt)
                        (init_required mt (get_required_for e mt dt)
                           \<lparr>form_fields = declared, form_metadata_type = Some mt,
                            form_document_type = Some dt\<rparr>))))"
    unfolding init_fields_result [OF assms(2-4)] by simp
  show ?thesis
    unfolding self
    by (simp add: init_default_other [OF u] init_lookup_other [OF u]
          init_required_update init_required_update_kept)
qed

lemma clean_not_required:
  assumes "form_metadata_type self = Some mt" and "form_document_type self = Some dt"
    and "\<not> get_required_for e mt dt"
  shows "DocumentMetadataForm_clean e self cleaned_data =
           (if truthy (dict_get cleaned_data ''update'')
            then (GetRequiredFor (mt_pk mt) (dt_pk dt) #
                    [ValidateValue (mt_pk mt) (dt_pk dt) (dict_get cleaned_data ''value'')],
                  case validate_value e mt dt (dict_get cleaned_data ''value'') of
                    Inl exception \<Rightarrow> Inl exception
                  | Inr parsed \<Rightarrow> Inr (cleaned_data(''value'' \<mapsto> parsed)))
            else ([GetRequiredFor (mt_pk mt) (dt_pk dt)], Inr cleaned_data))"
  using assms
  by (simp add: DocumentMetadataForm_clean_def clean_required_def clean_validate_def Let_def
        split: sum.splits)

lemma clean_required_empty:
  assumes "form_metadata_type self = Some mt" and "form_document_type self = Some dt"
    and "get_required_for e mt dt"
    and "cleaned_data ''value'' = Some v" and "\<not> truthy v"
    and "\<not> truthy (dict_get cleaned_data ''update'')"
  shows "DocumentMetadataForm_clean e self cleaned_data =
           ([GetRequiredFor (mt_pk mt) (dt_pk dt)],
            Inl (ValidationError (required_message mt)))"
  using assms
  by (simp add: DocumentMetadataForm_clean_def clean_required_def Let_def)

lemma clean_required_key_missing:
  assumes "form_metadata_type self = Some mt" and "form_document_type self = Some dt"
    and "get_required_for e mt dt"
    and "cleaned_data ''value'' = None"
  shows "DocumentMetadataForm_clean e self cleaned_data =
           ([GetRequiredFor (mt_pk mt) (dt_pk dt)], Inl (KeyError ''value''))"
  using assms
  by (simp add: DocumentMetadataForm_clean_def clean_required_def Let_def)

lemma clean_blank:
  "form_metadata_type self = None \<Longrightarrow>
   DocumentMetadataForm_clean e self cleaned_data = ([], Inr cleaned_data)"
  by (simp add: DocumentMetadataForm_clean_def clean_required_def clean_validate_def)

lemma kwargs_value_initial:
  "kw_value_initial (kwargs_value mt) =
     Some \<lparr>i_metadata_type = Some mt, i_document_type = Some dt_invoice\<rparr>"
  by (simp add: kwargs_value_def)

lemma init_never_fails:
  assumes "kw_value_initial kwargs = Some ini"
    and "i_metadata_type ini = Some mt" and "i_document_type ini = Some dt"
  shows "\<exists>calls self. DocumentMetadataForm_init_fields declared e kwargs = (calls, Inr self)"
  unfolding init_fields_result [OF assms] by blast

text \<open>
  The required-value check on cleaned data that holds an entry for \<^verbatim>\<open>value\<close>: when the
  metadata type is required, that entry is empty and the update toggle is unset (absent or
  false), \<^verbatim>\<open>clean\<close> raises \<^verbatim>\<open>ValidationError\<close> with the message that names the metadata
  type's label.
\<close>

lemma clean_required_value_empty:
  assumes init: "DocumentMetadataForm_init e0 kwargs = (calls, Inr self)"
    and ini: "kw_value_initial kwargs = Some ini"
    and mt: "i_metadata_type ini = Some mt" and dt: "i_document_type ini = Some dt"
    and required: "get_required_for e mt dt"
    and v: "cleaned_data ''value'' = Some v" and empty: "\<not> truthy v"
    and unset: "\<not> truthy (dict_get cleaned_data ''update'')"
  shows "DocumentMetadataForm_clean e self cleaned_data =
           ([GetRequiredFor (mt_pk mt) (dt_pk dt)],
            Inl (ValidationError
                   (CHR 0x22 # mt_label mt @ CHR 0x22 # '' is required for this document type.'')))"
proof -
  from init have "DocumentMetadataForm_init_fields DocumentMetadataForm_fields e0 kwargs =
                    (calls, Inr self)"
    by (simp add: DocumentMetadataForm_init_def)
  from init_fields_attrs [OF this ini mt dt]
  have a: "form_metadata_type self = Some mt" "form_document_type self = Some dt"
    by simp_all
  show ?thesis
    using clean_required_empty [OF a required v empty unset]
    by (simp only: required_message_def)
qed

lemma init_plain_required:
  "\<exists>calls self. DocumentMetadataForm_init (env_plain True) (kwargs_value mt_date) =
     (calls, Inr self)"
  unfolding DocumentMetadataForm_init_def
  by (rule init_never_fails [OF kwargs_value_initial]) simp_all

lemma clean_required_value_empty_example:
  "\<exists>calls self.
     DocumentMetadataForm_init (env_plain True) (kwargs_value mt_date) = (calls, Inr self) \<and>
     get_required_for (env_plain True) mt_date dt_invoice \<and>
     [''value'' \<mapsto> PyStr [], ''update'' \<mapsto> PyBool False] ''value'' = Some (PyStr []) \<and>
     \<not> truthy (PyStr []) \<and>
     \<not> truthy (dict_get [''value'' \<mapsto> PyStr [], ''update'' \<mapsto> PyBool False] ''update'') \<and>
     DocumentMetadataForm_clean (env_plain True) self
         [''value'' \<mapsto> PyStr [], ''update'' \<mapsto> PyBool False] =
       ([GetRequiredFor 7 1],
        Inl (ValidationError
               (CHR 0x22 # ''Date'' @ CHR 0x22 # '' is required for this document type.'')))"
proof -
  from init_plain_required obtain calls self where
    init: "DocumentMetadataForm_init (env_plain True) (kwargs_value mt_date) = (calls, Inr self)"
    by blast
  have r: "get_required_for (env_plain True) mt_date dt_invoice"
    by (simp add: env_plain_def)
  have v: "[''value'' \<mapsto> PyStr [], ''update'' \<mapsto> PyBool False] ''value'' = Some (PyStr [])"
    by simp
  have e: "\<not> truthy (PyStr [])"
    by simp
  have u: "\<not> truthy (dict_get [''value'' \<mapsto> PyStr [], ''update'' \<mapsto> PyBool False] ''update'')"
    by (simp add: dict_get_def)
  have "DocumentMetadataForm_clean (env_plain True) self
         [''value'' \<mapsto> PyStr [], ''update'' \<mapsto> PyBool False] =
       ([GetRequiredFor (mt_pk mt_date) (dt_pk dt_invoice)],
        Inl (ValidationError
               (CHR 0x22 # mt_label mt_date @ CHR 0x22 #
                '' is required for this document type.'')))"
    by (rule clean_required_value_empty [OF init kwargs_value_initial _ _ r v e u]) simp_all
  then have "DocumentMetadataForm_clean (env_plain True) self
         [''value'' \<mapsto> PyStr [], ''update'' \<mapsto> PyBool False] =
       ([GetRequiredFor 7 1],
        Inl (ValidationError
               (CHR 0x22 # ''Date'' @ CHR 0x22 # '' is required for this document type.'')))"
    by (simp add: mt_date_def dt_invoice_def)
  with init r v e u show ?thesis
    by blast
qed

lemma init_required_value:
  "form_fields (init_required mt True self) ''value'' =
     map_option (\<lambda>f. f\<lparr>f_required := True\<rparr>) (form_fields self ''value'')"
  by (simp add: init_required_def Let_def set_field_fields)

lemma init_lookup_value_required:
  assumes "form_fields self ''value'' = Some v" and "f_required v"
  shows "\<exists>v'. form_fields (snd (init_lookup e mt True self)) ''value'' = Some v' \<and> f_required v'"
  using assms
  by (simp add: init_lookup_def Let_def set_field_fields forms_ChoiceField_def
        split: sum.splits)

lemma init_default_value_required:
  assumes "form_fields self ''value'' = Some v" and "f_required v"
  shows "\<exists>v'. form_fields (snd (init_default e mt self)) ''value'' = Some v' \<and> f_required v'"
  using assms
  by (simp add: init_default_value split: sum.splits)

lemma init_value_required:
  assumes init: "DocumentMetadataForm_init e kwargs = (calls, Inr self)"
    and ini: "kw_value_initial kwargs = Some ini"
    and mt: "i_metadata_type ini = Some mt" and dt: "i_document_type ini = Some dt"
    and required: "get_required_for e mt dt"
  shows "\<exists>v. form_fields self ''value'' = Some v \<and> f_required v"
proof -
  let ?self1 = "\<lparr>form_fields = DocumentMetadataForm_fields, form_metadata_type = Some mt,
                  form_document_type = Some dt\<rparr>"
  from init have "DocumentMetadataForm_init_fields DocumentMetadataForm_fields e kwargs =
                    (calls, Inr self)"
    by (simp add: DocumentMetadataForm_init_def)
  then have self: "self = snd (init_default e mt
                            (snd (init_lookup e mt True (init_required mt True ?self1))))"
    unfolding init_fields_result [OF ini mt dt] using required by simp
  have "\<exists>v. form_fields (init_required mt True ?self1) ''value'' = Some v \<and> f_required v"
    by (simp add: init_required_value DocumentMetadataForm_fields_def)
  then obtain v2 where "form_fields (init_required mt True ?self1) ''value'' = Some v2"
    and "f_required v2"
    by blast
  from init_lookup_value_required [OF this, of e mt] obtain v3 where
    "form_fields (snd (init_lookup e mt True (init_required mt True ?self1))) ''value'' = Some v3"
    and "f_required v3"
    by blast
  from init_default_value_required [OF this, of e mt] show ?thesis
    unfolding self .
qed

text \<open>
  Claim C2. For a value form built for a metadata type that is required for its document
  type, the constructor makes the value field required, so Django's field cleaning rejects
  an empty submission and leaves no \<^verbatim>\<open>value\<close> entry in the cleaned data. On such cleaned
  data \<^verbatim>\<open>clean\<close> raises \<^verbatim>\<open>KeyError\<close> at the subscript of line 103, whatever the update
  toggle, and not the \<^verbatim>\<open>ValidationError\<close> of the required-value check.
\<close>

theorem clean_required_value_key_error:
  assumes init: "DocumentMetadataForm_init e kwargs = (calls, Inr self)"
    and ini: "kw_value_initial kwargs = Some ini"
    and mt: "i_metadata_type ini = Some mt" and dt: "i_document_type ini = Some dt"
    and required: "get_required_for e mt dt"
    and dropped: "cleaned_data ''value'' = None"
  shows "(\<exists>v. form_fields self ''value'' = Some v \<and> f_required v) \<and>
         DocumentMetadataForm_clean e self cleaned_data =
           ([GetRequiredFor (mt_pk mt) (dt_pk dt)], Inl (KeyError ''value''))"
proof
  show "\<exists>v. form_fields self ''value'' = Some v \<and> f_required v"
    using init ini mt dt required by (rule init_value_required)
  from init have "DocumentMetadataForm_init_fields DocumentMetadataForm_fields e kwargs =
                    (calls, Inr self)"
    by (simp add: DocumentMetadataForm_init_def)
  from init_fields_attrs [OF this ini mt dt]
  have a: "form_metadata_type self = Some mt" "form_document_type self = Some dt"
    by simp_all
  show "DocumentMetadataForm_clean e self cleaned_data =
           ([GetRequiredFor (mt_pk mt) (dt_pk dt)], Inl (KeyError ''value''))"
    using a required dropped
    by (rule clean_required_key_missing [where cleaned_data = cleaned_data])
qed

theorem clean_required_value_key_error_witness:
  "\<exists>calls self.
     DocumentMetadataForm_init (env_plain True) (kwargs_value mt_date) = (calls, Inr self) \<and>
     get_required_for (env_plain True) mt_date dt_invoice \<and>
     [''update'' \<mapsto> PyBool False] ''value'' = None \<and>
     (\<exists>v. form_fields self ''value'' = Some v \<and> f_required v) \<and>
     DocumentMetadataForm_clean (env_plain True) self [''update'' \<mapsto> PyBool False] =
       ([GetRequiredFor 7 1], Inl (KeyError ''value''))"
proof -
  from init_plain_required obtain calls self where
    init: "DocumentMetadataForm_init (env_plain True) (kwargs_value mt_date) = (calls, Inr self)"
    by blast
  have r: "get_required_for (env_plain True) mt_date dt_invoice"
    by (simp add: env_plain_def)
  have m: "i_metadata_type \<lparr>i_metadata_type = Some mt_date, i_document_type = Some dt_invoice\<rparr> =
             Some mt_date"
    and d: "i_document_type \<lparr>i_metadata_type = Some mt_date, i_document_type = Some dt_invoice\<rparr> =
             Some dt_invoice"
    by simp_all
  have k: "[''update'' \<mapsto> PyBool False] ''value'' = None"
    by simp
  from clean_required_value_key_error
         [where cleaned_data = "[''update'' \<mapsto> PyBool False]",
          OF init kwargs_value_initial m d r k]
  have f: "\<exists>v. form_fields self ''value'' = Some v \<and> f_required v"
    and c: "DocumentMetadataForm_clean (env_plain True) self [''update'' \<mapsto> PyBool False] =
       ([GetRequiredFor (mt_pk mt_date) (dt_pk dt_invoice)], Inl (KeyError ''value''))"
    by simp_all
  from c have "DocumentMetadataForm_clean (env_plain True) self [''update'' \<mapsto> PyBool False] =
       ([GetRequiredFor 7 1], Inl (KeyError ''value''))"
    by (simp add: mt_date_def dt_invoice_def)
  with init r k f show ?thesis
    by blast
qed

text \<open>
  Claim C10. A value form constructed without \<^verbatim>\<open>initial\<close> has neither \<^verbatim>\<open>metadata_type\<close>
  nor \<^verbatim>\<open>document_type\<close>; its \<^verbatim>\<open>clean\<close> returns the cleaned data unchanged for every
  cleaned data (toggle set or not) and every behaviour of the collaborators, and calls
  none of them: no required check, no validator.
\<close>

theorem clean_without_initial:
  "DocumentMetadataForm_init e0 \<lparr>kw_value_initial = None\<rparr> =
     ([], Inr \<lparr>form_fields = DocumentMetadataForm_fields, form_metadata_type = None,
               form_document_type = None\<rparr>) \<and>
   DocumentMetadataForm_clean e
     \<lparr>form_fields = DocumentMetadataForm_fields, form_metadata_type = None,
      form_document_type = None\<rparr> cleaned_data =
     ([], Inr cleaned_data)"
  by (simp add: DocumentMetadataForm_init_def DocumentMetadataForm_init_fields_def clean_blank)

text \<open>
  Claim C7, as amended. For a value form whose metadata type is not required for its
  document type, the update toggle's initial value is false, and \<^verbatim>\<open>clean\<close> never raises the
  required-value error: with the toggle unset it returns the cleaned data unchanged, value
  missing or not; with the toggle set its outcome is that of the validator, so it fails
  exactly when \<^verbatim>\<open>validate_value\<close> rejects the value.
\<close>

theorem not_required_update_and_clean:
  assumes init: "DocumentMetadataForm_init e kwargs = (calls, Inr self)"
    and ini: "kw_value_initial kwargs = Some ini"
    and mt: "i_metadata_type ini = Some mt" and dt: "i_document_type ini = Some dt"
    and optional: "\<not> get_required_for e mt dt"
  shows
    "(\<exists>u. form_fields self ''update'' = Some u \<and> f_initial u = PyBool False) \<and>
     snd (DocumentMetadataForm_clean e self cleaned_data) =
       (if truthy (dict_get cleaned_data ''update'')
        then (case validate_value e mt dt (dict_get cleaned_data ''value'') of
                Inl exception \<Rightarrow> Inl exception
              | Inr parsed \<Rightarrow> Inr (cleaned_data(''value'' \<mapsto> parsed)))
        else Inr cleaned_data)"
proof
  from init have i: "DocumentMetadataForm_init_fields DocumentMetadataForm_fields e kwargs =
                    (calls, Inr self)"
    by (simp add: DocumentMetadataForm_init_def)
  have "form_fields self ''update'' =
          map_option (\<lambda>f. f\<lparr>f_initial := PyBool False\<rparr>) (DocumentMetadataForm_fields ''update'')"
    using init_fields_update [OF i ini mt dt] optional by simp
  then show "\<exists>u. form_fields self ''update'' = Some u \<and> f_initial u = PyBool False"
    by (simp add: DocumentMetadataForm_fields_def)
  from init_fields_attrs [OF i ini mt dt]
  have a: "form_metadata_type self = Some mt" "form_document_type self = Some dt"
    by simp_all
  show "snd (DocumentMetadataForm_clean e self cleaned_data) =
       (if truthy (dict_get cleaned_data ''update'')
        then (case validate_value e mt dt (dict_get cleaned_data ''value'') of
                Inl exception \<Rightarrow> Inl exception
              | Inr parsed \<Rightarrow> Inr (cleaned_data(''value'' \<mapsto> parsed)))
        else Inr cleaned_data)"
    by (simp add: clean_not_required [OF a optional])
qed

lemma init_strict:
  "\<exists>calls self. DocumentMetadataForm_init env_strict (kwargs_value mt_date) = (calls, Inr self)"
  unfolding DocumentMetadataForm_init_def
  by (rule init_never_fails [OF kwargs_value_initial]) simp_all

theorem not_required_update_and_clean_witness:
  "\<exists>calls self.
     DocumentMetadataForm_init env_strict (kwargs_value mt_date) = (calls, Inr self) \<and>
     \<not> get_required_for env_strict mt_date dt_invoice \<and>
     (\<exists>u. form_fields self ''update'' = Some u \<and> f_initial u = PyBool False) \<and>
     snd (DocumentMetadataForm_clean env_strict self [''update'' \<mapsto> PyBool False]) =
       Inr [''update'' \<mapsto> PyBool False] \<and>
     snd (DocumentMetadataForm_clean env_strict self
            [''value'' \<mapsto> PyStr ''2020-01-01'', ''update'' \<mapsto> PyBool True]) =
       Inr [''value'' \<mapsto> PyStr ''2020-01-01'', ''update'' \<mapsto> PyBool True]"
proof -
  from init_strict obtain calls self where
    init: "DocumentMetadataForm_init env_strict (kwargs_value mt_date) = (calls, Inr self)"
    by blast
  have o: "\<not> get_required_for env_strict mt_date dt_invoice"
    by (simp add: env_strict_def)
  have m: "i_metadata_type \<lparr>i_metadata_type = Some mt_date, i_document_type = Some dt_invoice\<rparr> =
             Some mt_date"
    and d: "i_document_type \<lparr>i_metadata_type = Some mt_date, i_document_type = Some dt_invoice\<rparr> =
             Some dt_invoice"
    by simp_all
  note t = not_required_update_and_clean [OF init kwargs_value_initial m d o]
  have 1: "\<exists>u. form_fields self ''update'' = Some u \<and> f_initial u = PyBool False"
    using t [of Map.empty] by (rule conjunct1)
  have 2: "snd (DocumentMetadataForm_clean env_strict self [''update'' \<mapsto> PyBool False]) =
             Inr [''update'' \<mapsto> PyBool False]"
    using t [of "[''update'' \<mapsto> PyBool False]"] by (simp add: dict_get_def)
  have 3: "snd (DocumentMetadataForm_clean env_strict self
            [''value'' \<mapsto> PyStr ''2020-01-01'', ''update'' \<mapsto> PyBool True]) =
       Inr [''value'' \<mapsto> PyStr ''2020-01-01'', ''update'' \<mapsto> PyBool True]"
    using t [of "[''value'' \<mapsto> PyStr ''2020-01-01'', ''update'' \<mapsto> PyBool True]"]
    by (simp add: dict_get_def env_strict_def fun_upd_twist)
  from init o 1 2 3 show ?thesis
    by blast
qed

theorem not_required_clean_fails_counterexample:
  "\<exists>calls self.
     DocumentMetadataForm_init env_strict (kwargs_value mt_date) = (calls, Inr self) \<and>
     \<not> get_required_for env_strict mt_date dt_invoice \<and>
     [''update'' \<mapsto> PyBool True] ''value'' = None \<and>
     snd (DocumentMetadataForm_clean env_strict self [''update'' \<mapsto> PyBool True]) =
       Inl (ValidationError ''Enter a valid date.'')"
proof -
  from init_strict obtain calls self where
    init: "DocumentMetadataForm_init env_strict (kwargs_value mt_date) = (calls, Inr self)"
    by blast
  have o: "\<not> get_required_for env_strict mt_date dt_invoice"
    by (simp add: env_strict_def)
  from init have i: "DocumentMetadataForm_init_fields DocumentMetadataForm_fields env_strict
                       (kwargs_value mt_date) = (calls, Inr self)"
    by (simp add: DocumentMetadataForm_init_def)
  have a: "form_metadata_type self = Some mt_date" "form_document_type self = Some dt_invoice"
    using init_fields_attrs [OF i kwargs_value_initial] by simp_all
  have "snd (DocumentMetadataForm_clean env_strict self [''update'' \<mapsto> PyBool True]) =
       Inl (ValidationError ''Enter a valid date.'')"
    by (simp add: clean_not_required [OF a o] dict_get_def) (simp add: env_strict_def)
  with init o show ?thesis
    by auto
qed

lemma lookup_failure_value_field:
  assumes ini: "kw_value_initial kwargs = Some ini"
    and mt: "i_metadata_type ini = Some mt" and dt: "i_document_type ini = Some dt"
    and lookup: "truthy_opt (mt_lookup mt)"
    and raised: "get_lookup_values e mt = Inl msg"
  shows "\<exists>calls self v.
           DocumentMetadataForm_init e kwargs = (calls, Inr self) \<and>
           form_fields self ''value'' = Some v \<and>
           f_class v = ChoiceField \<and>
           f_widget v = forms_TextInput [''readonly'' \<mapsto> ''readonly''] \<and>
           f_initial v =
             (if truthy_opt (mt_default mt)
              then (case get_default_value e mt of
                      Inr d \<Rightarrow> PyStr d
                    | Inl m \<Rightarrow> PyStr (''Default value error: '' @ m))
              else PyStr (''Lookup value error: '' @ msg))"
proof -
  let ?req = "get_required_for e mt dt"
  let ?self2 = "init_required mt ?req
                  \<lparr>form_fields = DocumentMetadataForm_fields, form_metadata_type = Some mt,
                   form_document_type = Some dt\<rparr>"
  let ?self3 = "snd (init_lookup e mt ?req ?self2)"
  let ?self4 = "snd (init_default e mt ?self3)"
  let ?v3 = "(forms_ChoiceField (label_of ?self2 ''value''))
               \<lparr>f_initial := PyStr (''Lookup value error: '' @ msg),
                f_widget := forms_TextInput [''readonly'' \<mapsto> ''readonly'']\<rparr>"
  have v3: "form_fields ?self3 ''value'' = Some ?v3"
    by (rule init_lookup_failure [OF lookup raised])
  have r: "snd (DocumentMetadataForm_init e kwargs) = Inr ?self4"
    by (simp add: DocumentMetadataForm_init_def init_fields_result [OF ini mt dt])
  have "\<exists>v. form_fields ?self4 ''value'' = Some v \<and>
           f_class v = ChoiceField \<and>
           f_widget v = forms_TextInput [''readonly'' \<mapsto> ''readonly''] \<and>
           f_initial v =
             (if truthy_opt (mt_default mt)
              then (case get_default_value e mt of
                      Inr d \<Rightarrow> PyStr d
                    | Inl m \<Rightarrow> PyStr (''Default value error: '' @ m))
              else PyStr (''Lookup value error: '' @ msg))"
    by (simp add: init_default_value v3 forms_ChoiceField_def split: sum.splits)
  with r show ?thesis
    by (metis prod.collapse)
qed

text \<open>
  Claim C5, as amended. When the metadata type has a lookup template whose evaluation
  raises, the constructor still returns a form; the value field is the new choice field
  with a read-only text input as its widget, and its initial content is the lookup error
  message (prefixed \<^verbatim>\<open>Lookup value error: \<close>) when the metadata type has no default
  template. With a default template the content is the evaluated default, or the default's
  own error message.
\<close>

theorem lookup_failure_is_displayed:
  assumes ini: "kw_value_initial kwargs = Some ini"
    and mt: "i_metadata_type ini = Some mt" and dt: "i_document_type ini = Some dt"
    and lookup: "truthy_opt (mt_lookup mt)"
    and raised: "get_lookup_values e mt = Inl msg"
  shows "\<exists>calls self v.
           DocumentMetadataForm_init e kwargs = (calls, Inr self) \<and>
           form_fields self ''value'' = Some v \<and>
           f_class v = ChoiceField \<and>
           f_widget v = forms_TextInput [''readonly'' \<mapsto> ''readonly''] \<and>
           f_initial v =
             (if truthy_opt (mt_default mt)
              then (case get_default_value e mt of
                      Inr d \<Rightarrow> PyStr d
                    | Inl m \<Rightarrow> PyStr (''Default value error: '' @ m))
              else PyStr (''Lookup value error: '' @ msg))"
  using assms by (rule lookup_failure_value_field)

lemma country_facts:
  "i_metadata_type \<lparr>i_metadata_type = Some (mt_country d), i_document_type = Some dt_invoice\<rparr> =
     Some (mt_country d)"
  "i_document_type \<lparr>i_metadata_type = Some (mt_country d), i_document_type = Some dt_invoice\<rparr> =
     Some dt_invoice"
  "truthy_opt (mt_lookup (mt_country d))"
  "get_lookup_values env_failing_lookup (mt_country d) = Inl ''boom''"
  by (simp_all add: mt_country_def env_failing_lookup_def)

theorem lookup_failure_is_displayed_witness:
  "truthy_opt (mt_lookup (mt_country None)) \<and>
   get_lookup_values env_failing_lookup (mt_country None) = Inl ''boom'' \<and>
   (\<exists>calls self v.
      DocumentMetadataForm_init env_failing_lookup (kwargs_value (mt_country None)) =
        (calls, Inr self) \<and>
      form_fields self ''value'' = Some v \<and>
      w_class (f_widget v) = TextInput \<and>
      w_attrs (f_widget v) ''readonly'' = Some ''readonly'' \<and>
      f_initial v = PyStr ''Lookup value error: boom'')"
proof -
  from lookup_failure_is_displayed [OF kwargs_value_initial country_facts, of None]
  obtain calls self v where
    "DocumentMetadataForm_init env_failing_lookup (kwargs_value (mt_country None)) =
        (calls, Inr self)"
    and "form_fields self ''value'' = Some v"
    and w: "f_widget v = forms_TextInput [''readonly'' \<mapsto> ''readonly'']"
    and i: "f_initial v =
             (if truthy_opt (mt_default (mt_country None))
              then (case get_default_value env_failing_lookup (mt_country None) of
                      Inr d \<Rightarrow> PyStr d
                    | Inl m \<Rightarrow> PyStr (''Default value error: '' @ m))
              else PyStr (''Lookup value error: '' @ ''boom''))"
    by blast
  moreover from w have "w_class (f_widget v) = TextInput"
    and "w_attrs (f_widget v) ''readonly'' = Some ''readonly''"
    by (simp_all add: forms_TextInput_def)
  moreover from i have "f_initial v = PyStr ''Lookup value error: boom''"
    by (simp add: mt_country_def)
  ultimately show ?thesis
    using country_facts(3,4) [of None] by blast
qed

theorem lookup_failure_content_counterexample:
  "truthy_opt (mt_lookup (mt_country (Some ''{{ today }}''))) \<and>
   get_lookup_values env_failing_lookup (mt_country (Some ''{{ today }}'')) = Inl ''boom'' \<and>
   (\<exists>calls self v.
      DocumentMetadataForm_init env_failing_lookup
          (kwargs_value (mt_country (Some ''{{ today }}''))) = (calls, Inr self) \<and>
      form_fields self ''value'' = Some v \<and>
      f_initial v = PyStr ''2020-01-01'' \<and>
      f_initial v \<noteq> PyStr ''Lookup value error: boom'')"
proof -
  from lookup_failure_value_field [OF kwargs_value_initial country_facts,
          of "Some ''{{ today }}''"]
  obtain calls self v where
    "DocumentMetadataForm_init env_failing_lookup
          (kwargs_value (mt_country (Some ''{{ today }}''))) = (calls, Inr self)"
    and "form_fields self ''value'' = Some v"
    and i: "f_initial v =
             (if truthy_opt (mt_default (mt_country (Some ''{{ today }}'')))
              then (case get_default_value env_failing_lookup
                           (mt_country (Some ''{{ today }}'')) of
                      Inr d \<Rightarrow> PyStr d
                    | Inl m \<Rightarrow> PyStr (''Default value error: '' @ m))
              else PyStr (''Lookup value error: '' @ ''boom''))"
    by blast
  moreover from i have "f_initial v = PyStr ''2020-01-01''"
    by (simp add: mt_country_def env_failing_lookup_def)
  moreover from this have "f_initial v \<noteq> PyStr ''Lookup value error: boom''"
    by simp
  ultimately show ?thesis
    using country_facts(3,4) [of "Some ''{{ today }}''"] by blast
qed

text \<open>
  Claim C8. Every remove form the constructor returns has no \<^verbatim>\<open>value\<close> field and an
  \<^verbatim>\<open>update\<close> toggle whose initial value is false; its \<^verbatim>\<open>clean\<close> returns the cleaned data
  unchanged whatever the collaborators would answer, and calls none of them: neither the
  required check nor the validator of the parent class runs.
\<close>

theorem remove_form_has_no_value_check:
  assumes init: "DocumentMetadataRemoveForm_init e0 kwargs = (calls, Inr self)"
  shows "form_fields self ''value'' = None \<and>
         (\<exists>u. form_fields self ''update'' = Some u \<and> f_initial u = PyBool False) \<and>
         DocumentMetadataRemoveForm_clean e self cleaned_data = ([], Inr cleaned_data)"
proof (intro conjI)
  from init obtain self0 where
    i: "DocumentMetadataForm_init_fields DocumentMetadataRemoveForm_fields e0 kwargs =
          (calls, Inr self0)"
    and self: "self = self0\<lparr>form_fields := (form_fields self0)(''value'' := None)\<rparr>"
    by (auto simp: DocumentMetadataRemoveForm_init_def split: prod.splits sum.splits option.splits)
  show "form_fields self ''value'' = None"
    by (simp add: self)
  have decl: "\<exists>u. DocumentMetadataRemoveForm_fields ''update'' = Some u \<and>
                  f_initial u = PyBool False"
    by (simp add: DocumentMetadataRemoveForm_fields_def)
  have "\<exists>u. form_fields self0 ''update'' = Some u \<and> f_initial u = PyBool False"
  proof (cases "kw_value_initial kwargs")
    case None
    with i have "self0 = \<lparr>form_fields = DocumentMetadataRemoveForm_fields,
                           form_metadata_type = None, form_document_type = None\<rparr>"
      by (simp add: DocumentMetadataForm_init_fields_def)
    with decl show ?thesis by simp
  next
    case (Some ini)
    with i obtain mt dt where mt: "i_metadata_type ini = Some mt"
      and dt: "i_document_type ini = Some dt"
      by (auto simp: DocumentMetadataForm_init_fields_def split: option.splits)
    from init_fields_update [OF i Some mt dt] decl show ?thesis
      by auto
  qed
  then show "\<exists>u. form_fields self ''update'' = Some u \<and> f_initial u = PyBool False"
    by (simp add: self)
  show "DocumentMetadataRemoveForm_clean e self cleaned_data = ([], Inr cleaned_data)"
    by (simp add: DocumentMetadataRemoveForm_clean_def BaseForm_clean_def)
qed

lemma remove_init_required:
  "\<exists>calls self. DocumentMetadataRemoveForm_init (env_plain True) (kwargs_value mt_date) =
     (calls, Inr self)"
proof -
  have m: "i_metadata_type \<lparr>i_metadata_type = Some mt_date, i_document_type = Some dt_invoice\<rparr> =
             Some mt_date"
    and d: "i_document_type \<lparr>i_metadata_type = Some mt_date, i_document_type = Some dt_invoice\<rparr> =
             Some dt_invoice"
    by simp_all
  have l: "\<not> truthy_opt (mt_lookup mt_date)" "\<not> truthy_opt (mt_default mt_date)"
    by (simp_all add: mt_date_def)
  have "\<exists>f. form_fields (snd (init_default (env_plain True) mt_date
                     (snd (init_lookup (env_plain True) mt_date
                        (get_required_for (env_plain True) mt_date dt_invoice)
                        (init_required mt_date
                           (get_required_for (env_plain True) mt_date dt_invoice)
                           \<lparr>form_fields = DocumentMetadataRemoveForm_fields,
                            form_metadata_type = Some mt_date,
                            form_document_type = Some dt_invoice\<rparr>))))) ''value'' = Some f"
    using l
    by (simp add: init_default_def init_lookup_def init_required_def Let_def set_field_fields
          DocumentMetadataRemoveForm_fields_def DocumentMetadataForm_fields_def)
  then show ?thesis
    by (auto simp: DocumentMetadataRemoveForm_init_def
          init_fields_result [OF kwargs_value_initial m d])
qed

theorem remove_form_has_no_value_check_witness:
  "\<exists>calls self.
     DocumentMetadataRemoveForm_init (env_plain True) (kwargs_value mt_date) = (calls, Inr self) \<and>
     form_fields self ''value'' = None \<and>
     (\<exists>u. form_fields self ''update'' = Some u \<and> f_initial u = PyBool False) \<and>
     DocumentMetadataRemoveForm_clean (env_plain True) self [''update'' \<mapsto> PyBool False] =
       ([], Inr [''update'' \<mapsto> PyBool False])"
proof -
  from remove_init_required obtain calls self where
    init: "DocumentMetadataRemoveForm_init (env_plain True) (kwargs_value mt_date) =
             (calls, Inr self)"
    by blast
  from remove_form_has_no_value_check [OF init, of "env_plain True" "[''update'' \<mapsto> PyBool False]"]
    init
  show ?thesis
    by blast
qed

text \<open>
  Claim C9. Without a document type, a \<^verbatim>\<open>queryset\<close> keyword argument is not taken out of
  the keyword arguments and reaches \<^verbatim>\<open>forms.Form.__init__\<close>, which rejects it: the
  constructor raises \<^verbatim>\<open>TypeError\<close> instead of building a form with an empty selection.
\<close>

theorem add_form_queryset_without_document_type:
  "DocumentMetadataAddForm_init get_for_document_type
     \<lparr>kw_document_type = None, kw_queryset = Some [mt_date], kw_others = []\<rparr> =
   Inl (TypeError (''__init__() got an unexpected keyword argument '' @
                   CHR 0x27 # ''queryset'' @ [CHR 0x27]))"
  by (simp add: DocumentMetadataAddForm_init_def Form_init_def Form_init_parameters_def)

lemma add_form_without_document_type:
  assumes "kw_document_type kwargs = None \<or> kw_document_type kwargs = Some None"
    and "DocumentMetadataAddForm_init get_for_document_type kwargs = Inr form"
  shows "metadata_type_queryset form = [] \<and> kw_queryset kwargs = None"
  using assms
  by (auto simp: DocumentMetadataAddForm_init_def Form_init_def Form_init_parameters_def
        split: option.splits list.splits sum.splits if_splits)

lemma add_form_with_document_type:
  assumes "kw_document_type kwargs = Some (Some dt)"
    and "DocumentMetadataAddForm_init get_for_document_type kwargs = Inr form"
  shows "metadata_type_queryset form =
           (case kw_queryset kwargs of None \<Rightarrow> get_for_document_type dt | Some q \<Rightarrow> q)"
  using assms
  by (auto simp: DocumentMetadataAddForm_init_def split: option.splits sum.splits)

end
